theory Spec2Isabelle
  imports Main "HOL-Library.Word" "HOL-Library.AList"
begin

unbundle bit_operations_syntax

section \<open>Shared vocabulary\<close>

text \<open>
  The repository holds two connection multiplexers of a SPDY endpoint: the server
  connection of \<^verbatim>\<open>connection.go\<close> and the client connection
  (\<^verbatim>\<open>clientConnection\<close>). Both are embedded here function by function.
  Go's \<^verbatim>\<open>uint32\<close> and \<^verbatim>\<open>uint16\<close> are words, so that \<open>+\<close> and \<open>-\<close> wrap;
  Go's \<^verbatim>\<open>int\<close> (versions, the benign error counter, the wait group) is \<open>int\<close>:
  its width depends on the platform and no counter of the model gets near it.
  A Go map is an association list with \<^const>\<open>map_of\<close> as lookup, \<^const>\<open>AList.update\<close>
  as assignment and \<^const>\<open>AList.delete\<close> as \<^verbatim>\<open>delete\<close>; \<^verbatim>\<open>range\<close> visits the
  entries in list order, which stands for the order Go happens to choose.
  Logging, the mutex and the transport deadlines do not change the protocol state and
  are left out. Of the handles of a connection the model keeps the pointers the code
  reads through before any frame arrives (\<^verbatim>\<open>tlsState\<close> and \<^verbatim>\<open>server\<close> on the
  server, \<^verbatim>\<open>client\<close> on the client), as \<open>None\<close> for nil; the transport itself
  (\<^verbatim>\<open>remoteAddr\<close>, \<^verbatim>\<open>conn\<close>, \<^verbatim>\<open>buf\<close>, \<^verbatim>\<open>tlsConfig\<close>, the compressor pair)
  is not part of the model, and neither are the functions that only move frames between
  the transport and the connection (\<^verbatim>\<open>send\<close>, \<^verbatim>\<open>run\<close>, \<^verbatim>\<open>serve\<close>) or do
  nothing (\<^verbatim>\<open>Push\<close>, \<^verbatim>\<open>Request\<close>).
\<close>

type_synonym uint32 = "32 word"
type_synonym uint16 = "16 word"

text \<open>
  How a call leaves its goroutine: it comes back to its caller (\<open>Continue\<close>), or the
  goroutine stops, because \<^verbatim>\<open>readFrames\<close> returned, because of
  \<^verbatim>\<open>runtime.Goexit\<close>, because of a panic, or because it blocks for ever on a
  nil channel. The state at that moment is kept: \<open>state_of\<close> reads it.
\<close>

datatype stop = Returned | Goexit | Panicked | Blocked

datatype 'c outcome = is_Continue: Continue (state_of: 'c) | Stopped (why_stopped: stop) (state_of: 'c)

text \<open>
  Modelled from the spec: the wire constants are declared in a file that is not among
  the sources at hand; section 6 of the specification gives \<open>MAX_STREAM_ID = 2^31 - 1\<close>,
  \<open>MAX_DELTA_WINDOW_SIZE = 2^31 - 1\<close>, \<open>FLAG_FIN = 0x01\<close> and the RST_STREAM status codes.
\<close>

definition MAX_STREAM_ID :: uint32 where
  "MAX_STREAM_ID = 0x7FFFFFFF"

definition MAX_DELTA_WINDOW_SIZE :: uint32 where
  "MAX_DELTA_WINDOW_SIZE = 0x7FFFFFFF"

definition FLAG_FIN :: "8 word" where
  "FLAG_FIN = 0x01"

definition RST_STREAM_PROTOCOL_ERROR :: uint32 where
  "RST_STREAM_PROTOCOL_ERROR = 1"

definition RST_STREAM_INVALID_STREAM :: uint32 where
  "RST_STREAM_INVALID_STREAM = 2"

definition RST_STREAM_REFUSED_STREAM :: uint32 where
  "RST_STREAM_REFUSED_STREAM = 3"

definition RST_STREAM_UNSUPPORTED_VERSION :: uint32 where
  "RST_STREAM_UNSUPPORTED_VERSION = 4"

definition RST_STREAM_CANCEL :: uint32 where
  "RST_STREAM_CANCEL = 5"

definition RST_STREAM_INTERNAL_ERROR :: uint32 where
  "RST_STREAM_INTERNAL_ERROR = 6"

definition RST_STREAM_FLOW_CONTROL_ERROR :: uint32 where
  "RST_STREAM_FLOW_CONTROL_ERROR = 7"

definition RST_STREAM_STREAM_IN_USE :: uint32 where
  "RST_STREAM_STREAM_IN_USE = 8"

definition RST_STREAM_STREAM_ALREADY_CLOSED :: uint32 where
  "RST_STREAM_STREAM_ALREADY_CLOSED = 9"

definition RST_STREAM_INVALID_CREDENTIALS :: uint32 where
  "RST_STREAM_INVALID_CREDENTIALS = 10"

section \<open>The server connection (connection.go)\<close>

text \<open>
  The frames of the server file carry exported fields (\<^verbatim>\<open>frame.Version\<close>,
  \<^verbatim>\<open>frame.StreamID\<close>, \<^verbatim>\<open>reply.StatusCode\<close>); \<^verbatim>\<open>Version\<close> is compared with the
  \<^verbatim>\<open>int\<close> field \<^verbatim>\<open>conn.version\<close>. Only SYN_STREAM is read and only RST_STREAM is
  written, so the other kinds carry no payload here. \<open>SUnknownFrame\<close> is a value of
  none of the ten types, which the \<^verbatim>\<open>default\<close> branch meets.
\<close>

datatype sframe =
    SSynStreamFrame int uint32
  | SSynReplyFrame
  | SRstStreamFrame int uint32 uint32
  | SSettingsFrame
  | SPingFrame
  | SGoawayFrame
  | SHeadersFrame
  | SWindowUpdateFrame
  | SCredentialFrame
  | SDataFrame
  | SUnknownFrame

text \<open>
  Modelled from the spec: \<^verbatim>\<open>newStream\<close> and \<^verbatim>\<open>stream.run\<close> of the server are not
  among the sources at hand. A stream is created from the SYN_STREAM frame that opens
  it, and \<^verbatim>\<open>go s.run()\<close> launches its actor, which the model records in \<open>started\<close>.
\<close>

record stream =
  opened_by :: sframe
  started :: bool

definition newStream :: "sframe \<Rightarrow> stream" where
  "newStream frame = \<lparr>opened_by = frame, started = False\<rparr>"

definition run_stream :: "stream \<Rightarrow> stream" where
  "run_stream s = s\<lparr>started := True\<rparr>"

text \<open>
  The fields of \<^verbatim>\<open>http.Server\<close> that \<^verbatim>\<open>readFrames\<close> reads; a
  \<^verbatim>\<open>time.Duration\<close> is an integer.
\<close>

record Server =
  s_ReadTimeout :: int
  s_WriteTimeout :: int

text \<open>
  The fields of \<^verbatim>\<open>connection\<close>, with the prefix \<open>s_\<close> that keeps them apart from the
  client's fields of the same name. \<^verbatim>\<open>server\<close> and \<^verbatim>\<open>tlsState\<close> are pointers:
  \<open>None\<close> is nil, and what \<^verbatim>\<open>tlsState\<close> points to is not modelled. \<open>s_written\<close>
  is not a field of the struct: it holds the frames handed to \<^verbatim>\<open>WriteFrame\<close>, in
  order.
\<close>

record connection =
  s_server :: "Server option"
  s_tlsState :: "unit option"
  s_streams :: "(uint32 \<times> stream) list"
  s_buffer :: "sframe list"
  s_queue :: "sframe list"
  s_nextServerStreamID :: uint32
  s_nextClientStreamID :: uint32
  s_goaway :: bool
  s_version :: int
  s_written :: "sframe list"

text \<open>
  Modelled from the spec: \<^verbatim>\<open>connection.WriteFrame\<close> is not among the sources at
  hand; by section 4.3 of the specification every producer appends its frame to the one
  outbound FIFO.
\<close>

definition s_WriteFrame :: "connection \<Rightarrow> sframe \<Rightarrow> connection" where
  "s_WriteFrame conn frame = conn\<lparr>s_written := s_written conn @ [frame]\<rparr>"

text \<open>
  \<^verbatim>\<open>new(connection)\<close>: every field has its zero value; the pointers and the maps are
  nil.
\<close>

definition new_connection :: connection where
  "new_connection = \<lparr>s_server = None, s_tlsState = None, s_streams = [], s_buffer = [],
     s_queue = [], s_nextServerStreamID = 0, s_nextClientStreamID = 0,
     s_goaway = False, s_version = 0, s_written = []\<rparr>"

text \<open>
  Go evaluates a constant expression exactly, over the integers. Where the constant is
  used as a \<^verbatim>\<open>uint32\<close> it must be a value of that type: otherwise the compiler
  rejects the program, which is \<open>None\<close>. Nothing wraps around here.
\<close>

definition uint32_of_const :: "int \<Rightarrow> uint32 option" where
  "uint32_of_const k = (if 0 \<le> k \<and> k < 2 ^ 32 then Some (word_of_int k) else None)"

text \<open>
  \<^verbatim>\<open>newConn\<close>, line by line. \<open>None\<close> says that the caller gets no connection. The
  statement \<^verbatim>\<open>*conn.tlsState = tlsConn.ConnectionState()\<close> writes through the
  pointer \<^verbatim>\<open>tlsState\<close>, which is still nil, and panics. The statements after it
  make the maps and queues and set the counters from the constants \<open>0\<close> and \<open>1 - 2\<close>.
\<close>

definition newConn :: "connection option" where
  "newConn =
     (let conn = new_connection in
      case s_tlsState conn of
        None \<Rightarrow> None
      | Some state \<Rightarrow>
          (case (uint32_of_const 0, uint32_of_const (1 - 2)) of
             (Some server_id, Some client_id) \<Rightarrow>
               Some (conn\<lparr>s_streams := [], s_buffer := [], s_queue := [],
                          s_nextServerStreamID := server_id,
                          s_nextClientStreamID := client_id\<rparr>)
           | _ \<Rightarrow> None))"

text \<open>
  \<^verbatim>\<open>acceptSPDYVersion2\<close> and \<^verbatim>\<open>acceptSPDYVersion3\<close>, up to the call of
  \<^verbatim>\<open>serve\<close>: the connection of \<^verbatim>\<open>newConn\<close> gets the server, whose
  \<^verbatim>\<open>TLSConfig\<close> is read (a panic when the server is nil), and the version.
\<close>

definition acceptSPDYVersion2 :: "Server option \<Rightarrow> connection option" where
  "acceptSPDYVersion2 server =
     (case newConn of
        None \<Rightarrow> None
      | Some conn \<Rightarrow>
          (case server of
             None \<Rightarrow> None
           | Some sv \<Rightarrow> Some (conn\<lparr>s_server := Some sv, s_version := 2\<rparr>)))"

definition acceptSPDYVersion3 :: "Server option \<Rightarrow> connection option" where
  "acceptSPDYVersion3 server =
     (case newConn of
        None \<Rightarrow> None
      | Some conn \<Rightarrow>
          (case server of
             None \<Rightarrow> None
           | Some sv \<Rightarrow> Some (conn\<lparr>s_server := Some sv, s_version := 3\<rparr>)))"

text \<open>
  The body of the \<^verbatim>\<open>switch\<close> of \<^verbatim>\<open>connection.readFrames\<close>. The constant
  \<^verbatim>\<open>SPDY_VERSION\<close> is declared elsewhere and is the parameter \<open>V\<close>. Every
  \<^verbatim>\<open>break FrameHandling\<close> goes on with the next frame.
\<close>

fun s_handleFrame :: "int \<Rightarrow> connection \<Rightarrow> sframe \<Rightarrow> connection outcome" where
  "s_handleFrame V conn (SSynStreamFrame ver sid) =
     (if s_goaway conn then Continue conn
      else if ver \<noteq> s_version conn \<and> ver > V then
        Continue (s_WriteFrame conn (SRstStreamFrame V sid RST_STREAM_UNSUPPORTED_VERSION))
      else if sid AND 1 = 0 then
        Continue (s_WriteFrame conn (SRstStreamFrame V sid RST_STREAM_PROTOCOL_ERROR))
      else if sid \<noteq> s_nextClientStreamID conn + 2 then
        Continue (s_WriteFrame conn (SRstStreamFrame V sid RST_STREAM_PROTOCOL_ERROR))
      else if sid > MAX_STREAM_ID then
        Continue (s_WriteFrame conn (SRstStreamFrame V sid RST_STREAM_PROTOCOL_ERROR))
      else
        Continue (conn\<lparr>s_streams :=
          AList.update sid (run_stream (newStream (SSynStreamFrame ver sid))) (s_streams conn)\<rparr>))"
| "s_handleFrame V conn SUnknownFrame = Stopped Panicked conn"
| "s_handleFrame V conn frame = Continue conn"

text \<open>
  One turn of the loop of \<^verbatim>\<open>connection.readFrames\<close>: \<open>None\<close> is an error of
  \<^verbatim>\<open>ReadFrame\<close>, which panics.
\<close>

definition s_readFrames_step :: "int \<Rightarrow> connection \<Rightarrow> sframe option \<Rightarrow> connection outcome" where
  "s_readFrames_step V conn rd =
     (case rd of None \<Rightarrow> Stopped Panicked conn | Some frame \<Rightarrow> s_handleFrame V conn frame)"

text \<open>
  The loop over the frames that have arrived so far; with none left it waits in
  \<^verbatim>\<open>ReadFrame\<close>.
\<close>

fun s_readFrames_loop :: "int \<Rightarrow> connection \<Rightarrow> sframe option list \<Rightarrow> connection outcome" where
  "s_readFrames_loop V conn [] = Continue conn"
| "s_readFrames_loop V conn (rd # rds) =
     (case s_readFrames_step V conn rd of
        Continue conn' \<Rightarrow> s_readFrames_loop V conn' rds
      | Stopped why conn' \<Rightarrow> Stopped why conn')"

text \<open>
  \<^verbatim>\<open>connection.readFrames\<close>: before the loop the timeouts are read through
  \<^verbatim>\<open>conn.server\<close>, which panics on nil; setting the deadlines of the transport
  changes nothing in the model.
\<close>

definition s_readFrames :: "int \<Rightarrow> connection \<Rightarrow> sframe option list \<Rightarrow> connection outcome" where
  "s_readFrames V conn rds =
     (case s_server conn of
        None \<Rightarrow> Stopped Panicked conn
      | Some sv \<Rightarrow> s_readFrames_loop V conn rds)"


section \<open>The client connection\<close>

subsection \<open>Frames, streams and channels\<close>

text \<open>
  The frame types are declared in a file that is not at hand. Each constructor carries the fields the
  client connection reads (\<^verbatim>\<open>version\<close>, \<^verbatim>\<open>streamID\<close>, \<^verbatim>\<open>StatusCode\<close>,
  \<^verbatim>\<open>Settings\<close>, \<^verbatim>\<open>PingID\<close>, \<^verbatim>\<open>LastGoodStreamID\<close>, \<^verbatim>\<open>Flags\<close>,
  \<^verbatim>\<open>DeltaWindowSize\<close>) and, last, the payload it passes on untouched: the header
  block after \<^verbatim>\<open>ReadHeaders\<close>, or the data bytes. \<open>UnknownFrame\<close> is a frame of
  none of the ten types, which the \<^verbatim>\<open>default\<close> branch meets.
\<close>

record Setting =
  ID :: uint32
  Value :: uint32

datatype Frame =
    SynStreamFrame uint16 uint32 "(string \<times> string) list"
  | SynReplyFrame uint16 uint32 "(string \<times> string) list"
  | RstStreamFrame uint16 uint32 uint32
  | SettingsFrame uint16 "Setting list"
  | PingFrame uint16 uint32
  | GoawayFrame uint16 uint32
  | HeadersFrame uint16 uint32 "8 word" "(string \<times> string) list"
  | WindowUpdateFrame uint16 uint32 uint32
  | CredentialFrame uint16
  | DataFrame uint32 "8 word" "8 word list"
  | UnknownFrame uint16

text \<open>
  \<^verbatim>\<open>frame.Version()\<close>. A DATA frame has no version and the source never asks for it:
  there is no equation for it.
\<close>

fun Version :: "Frame \<Rightarrow> uint16" where
  "Version (SynStreamFrame v sid hs) = v"
| "Version (SynReplyFrame v sid hs) = v"
| "Version (RstStreamFrame v sid code) = v"
| "Version (SettingsFrame v ss) = v"
| "Version (PingFrame v pid) = v"
| "Version (GoawayFrame v lastGood) = v"
| "Version (HeadersFrame v sid flags hs) = v"
| "Version (WindowUpdateFrame v sid delta) = v"
| "Version (CredentialFrame v) = v"
| "Version (UnknownFrame v) = v"

text \<open>
  Modelled from the spec: the method \<^verbatim>\<open>frame.StreamID()\<close> is not at hand;
  by section 6 of the specification it is the stream the frame refers to, and 0 for a
  frame that refers to none.
\<close>

fun StreamID :: "Frame \<Rightarrow> uint32" where
  "StreamID (SynStreamFrame v sid hs) = sid"
| "StreamID (SynReplyFrame v sid hs) = sid"
| "StreamID (RstStreamFrame v sid code) = sid"
| "StreamID (HeadersFrame v sid flags hs) = sid"
| "StreamID (WindowUpdateFrame v sid delta) = sid"
| "StreamID (DataFrame sid flags bytes) = sid"
| "StreamID frame = 0"

text \<open>
  Modelled from the spec: the \<^verbatim>\<open>Stream\<close> interface and its implementations are not
  among the sources at hand. The connection calls \<^verbatim>\<open>Stop()\<close>, \<^verbatim>\<open>Cancel()\<close>,
  \<^verbatim>\<open>State().Close()\<close> and \<^verbatim>\<open>State().CloseThere()\<close> on a stream; by sections 4.1,
  4.6 and 4.7 of the specification these ask the stream to stop, to cancel, close it, and
  mark its remote half closed. A stream object records which of them it has received.
\<close>

record StreamObj =
  stopped :: bool
  cancelled :: bool
  state_closed :: bool
  state_closed_there :: bool

definition Stop :: "StreamObj \<Rightarrow> StreamObj" where
  "Stop s = s\<lparr>stopped := True\<rparr>"

definition Cancel :: "StreamObj \<Rightarrow> StreamObj" where
  "Cancel s = s\<lparr>cancelled := True\<rparr>"

definition State_Close :: "StreamObj \<Rightarrow> StreamObj" where
  "State_Close s = s\<lparr>state_closed := True\<rparr>"

definition State_CloseThere :: "StreamObj \<Rightarrow> StreamObj" where
  "State_CloseThere s = s\<lparr>state_closed_there := True\<rparr>"

text \<open>
  A Go channel, seen from its sending side: the values sent so far, in order, and
  whether it has been closed. Sending on a closed channel panics, and so does closing
  it again; both are \<open>None\<close>. That a send may wait for the receiver is not modelled.
\<close>

record 'a chan =
  sent :: "'a list"
  chan_closed :: bool

definition make_chan :: "'a chan" where
  "make_chan = \<lparr>sent = [], chan_closed = False\<rparr>"

definition chan_send :: "'a chan \<Rightarrow> 'a \<Rightarrow> 'a chan option" where
  "chan_send c x = (if chan_closed c then None else Some (c\<lparr>sent := sent c @ [x]\<rparr>))"

definition chan_close :: "'a chan \<Rightarrow> 'a chan option" where
  "chan_close c = (if chan_closed c then None else Some (c\<lparr>chan_closed := True\<rparr>))"

subsection \<open>The connection\<close>

text \<open>
  Streams and channels are shared with other goroutines: a stream's actor reads its
  inbox, the caller of \<^verbatim>\<open>Ping\<close> keeps the channel it was given. They live in a
  store, and the tables of the connection hold references into it. The first fourteen
  fields are those of the struct (\<^verbatim>\<open>client\<close> is a pointer, \<open>None\<close> for nil;
  \<open>done_wg\<close> counts the \<^verbatim>\<open>done\<close> wait group); the last four are the store and its
  allocator. \<^verbatim>\<open>dataOutput\<close> is never closed, and is
  the list of the frames sent on it. A table that the source sets to \<^verbatim>\<open>nil\<close> is
  \<open>[]\<close>: the source only reads, ranges over and deletes from \<^verbatim>\<open>streams\<close> and
  \<^verbatim>\<open>streamInputs\<close>, and these do the same on a nil map as on an empty one.
\<close>

type_synonym ref = nat

text \<open>
  The fields of \<^verbatim>\<open>Client\<close> that the connection reads; a \<^verbatim>\<open>time.Duration\<close> is an
  integer.
\<close>

record Client =
  ReadTimeout :: int
  WriteTimeout :: int
  GlobalSettings :: "Setting list"

record clientConnection =
  client :: "Client option"
  streams :: "(uint32 \<times> ref) list"
  streamInputs :: "(uint32 \<times> ref) list"
  dataOutput :: "Frame list"
  pings :: "(uint32 \<times> ref) list"
  pingID :: uint32
  receivedSettings :: "(uint32 \<times> Setting) list"
  nextServerStreamID :: uint32
  nextClientStreamID :: uint32
  initialWindowSize :: uint32
  goaway :: bool
  version :: int
  numBenignErrors :: int
  done_wg :: int
  stream_objs :: "ref \<Rightarrow> StreamObj"
  frame_chans :: "ref \<Rightarrow> Frame chan"
  bool_chans :: "ref \<Rightarrow> bool chan"
  next_ref :: ref

text \<open>
  The constants and the helper that the client file uses and that are declared in
  files not at hand are parameters. The comment in \<^verbatim>\<open>readFrames\<close> gives 10 as the default of
  \<^verbatim>\<open>MaxBenignErrors\<close>.
\<close>

record params =
  MaxBenignErrors :: int
  SPDY_VERSION :: uint16
  SETTINGS_INITIAL_WINDOW_SIZE :: uint32
  DEFAULT_INITIAL_CLIENT_WINDOW_SIZE :: uint32
  StatusCodeIsFatal :: "int \<Rightarrow> bool"

text \<open>Sequencing: what follows a call runs only if the call comes back.\<close>

definition and_then :: "'c outcome \<Rightarrow> ('c \<Rightarrow> 'c outcome) \<Rightarrow> 'c outcome" where
  "and_then r f = (case r of Continue c \<Rightarrow> f c | Stopped why c \<Rightarrow> Stopped why c)"

definition newClientConn :: "params \<Rightarrow> clientConnection" where
  "newClientConn P = \<lparr>client = None, streams = [], streamInputs = [], dataOutput = [], pings = [],
     pingID = 1, receivedSettings = [], nextServerStreamID = 0, nextClientStreamID = 0,
     initialWindowSize = DEFAULT_INITIAL_CLIENT_WINDOW_SIZE P, goaway = False, version = 0,
     numBenignErrors = 0, done_wg = 0,
     stream_objs = (\<lambda>r. \<lparr>stopped = False, cancelled = False, state_closed = False,
       state_closed_there = False\<rparr>),
     frame_chans = (\<lambda>r. make_chan), bool_chans = (\<lambda>r. make_chan), next_ref = 0\<rparr>"

definition WriteFrame :: "clientConnection \<Rightarrow> Frame \<Rightarrow> clientConnection" where
  "WriteFrame conn frame = conn\<lparr>dataOutput := dataOutput conn @ [frame]\<rparr>"

text \<open>\<^verbatim>\<open>conn.numBenignErrors++\<close>\<close>

definition benign :: "clientConnection \<Rightarrow> clientConnection" where
  "benign conn = conn\<lparr>numBenignErrors := numBenignErrors conn + 1\<rparr>"

text \<open>
  \<^verbatim>\<open>Ping\<close>: the frame is sent, a fresh channel is made and registered under the
  current ping ID, and the ID moves on by 2. The channel is returned.
\<close>

definition Ping :: "clientConnection \<Rightarrow> clientConnection \<times> ref" where
  "Ping conn =
     (let c = next_ref conn in
      (conn\<lparr>dataOutput := dataOutput conn @ [PingFrame (word_of_int (version conn)) (pingID conn)],
            bool_chans := (bool_chans conn)(c := make_chan),
            next_ref := Suc c,
            pings := AList.update (pingID conn) c (pings conn),
            pingID := pingID conn + 2\<rparr>, c))"

definition validFrameVersion :: "clientConnection \<Rightarrow> Frame \<Rightarrow> bool" where
  "validFrameVersion conn frame =
     (case frame of
        DataFrame sid flags bytes \<Rightarrow> True
      | _ \<Rightarrow> \<not> (Version frame \<noteq> word_of_int (version conn)))"

text \<open>
  \<^verbatim>\<open>cleanup\<close>: the loop over \<^verbatim>\<open>streamInputs\<close> closes each channel and stops the
  stream registered under the same ID. Closing a closed channel panics, and so does
  \<^verbatim>\<open>Stop\<close> on the nil that \<^verbatim>\<open>conn.streams[streamID]\<close> is for a missing key. Then
  both tables are set to nil.
\<close>

fun cleanup_loop :: "clientConnection \<Rightarrow> (uint32 \<times> ref) list \<Rightarrow> clientConnection outcome" where
  "cleanup_loop conn [] = Continue conn"
| "cleanup_loop conn ((streamID, c) # rest) =
     (case chan_close (frame_chans conn c) of
        None \<Rightarrow> Stopped Panicked conn
      | Some ch \<Rightarrow>
          (let conn1 = conn\<lparr>frame_chans := (frame_chans conn)(c := ch)\<rparr> in
           case map_of (streams conn1) streamID of
             None \<Rightarrow> Stopped Panicked conn1
           | Some s \<Rightarrow>
               cleanup_loop
                 (conn1\<lparr>stream_objs := (stream_objs conn1)(s := Stop (stream_objs conn1 s))\<rparr>)
                 rest))"

definition cleanup :: "clientConnection \<Rightarrow> clientConnection outcome" where
  "cleanup conn =
     and_then (cleanup_loop conn (streamInputs conn))
       (\<lambda>conn. Continue (conn\<lparr>streamInputs := [], streams := []\<rparr>))"

text \<open>
  \<^verbatim>\<open>PROTOCOL_ERROR\<close>: the RST_STREAM is sent, \<^verbatim>\<open>cleanup\<close> runs, and
  \<^verbatim>\<open>runtime.Goexit\<close> ends the goroutine. It never comes back to its caller.
\<close>

definition PROTOCOL_ERROR :: "clientConnection \<Rightarrow> uint32 \<Rightarrow> clientConnection outcome" where
  "PROTOCOL_ERROR conn streamID =
     and_then
       (cleanup (WriteFrame conn
          (RstStreamFrame (word_of_int (version conn)) streamID RST_STREAM_PROTOCOL_ERROR)))
       (\<lambda>conn. Stopped Goexit conn)"

text \<open>
  \<^verbatim>\<open>closeStream\<close>. Each of \<^verbatim>\<open>conn.streams[streamID]\<close> and
  \<^verbatim>\<open>conn.streamInputs[streamID]\<close> is nil for a missing key; a method call on nil
  panics and so does \<^verbatim>\<open>close(nil)\<close>. The last statement deletes from
  \<^verbatim>\<open>streams\<close>; nothing deletes from \<^verbatim>\<open>streamInputs\<close>.
\<close>

definition closeStream :: "clientConnection \<Rightarrow> uint32 \<Rightarrow> clientConnection outcome" where
  "closeStream conn streamID =
     (if streamID = 0 then Continue conn
      else case map_of (streams conn) streamID of
        None \<Rightarrow> Stopped Panicked conn
      | Some s \<Rightarrow>
          (let conn1 = conn\<lparr>stream_objs := (stream_objs conn)(s := Stop (stream_objs conn s))\<rparr>;
               conn2 = conn1\<lparr>stream_objs :=
                 (stream_objs conn1)(s := State_Close (stream_objs conn1 s))\<rparr>
           in case map_of (streamInputs conn2) streamID of
             None \<Rightarrow> Stopped Panicked conn2
           | Some c \<Rightarrow>
               (case chan_close (frame_chans conn2 c) of
                  None \<Rightarrow> Stopped Panicked conn2
                | Some ch \<Rightarrow>
                    Continue (conn2\<lparr>frame_chans := (frame_chans conn2)(c := ch),
                                   streams := AList.delete streamID (streams conn2)\<rparr>))))"


subsection \<open>The frame handlers\<close>

text \<open>
  \<^verbatim>\<open>conn.streamInputs[sid] <- frame\<close>: for a missing key the channel is nil and the
  send blocks for ever; on a closed channel it panics.
\<close>

definition send_input :: "clientConnection \<Rightarrow> uint32 \<Rightarrow> Frame \<Rightarrow> clientConnection outcome" where
  "send_input conn sid frame =
     (case map_of (streamInputs conn) sid of
        None \<Rightarrow> Stopped Blocked conn
      | Some c \<Rightarrow>
          (case chan_send (frame_chans conn c) frame of
             None \<Rightarrow> Stopped Panicked conn
           | Some ch \<Rightarrow> Continue (conn\<lparr>frame_chans := (frame_chans conn)(c := ch)\<rparr>)))"

text \<open>
  \<^verbatim>\<open>if frame.Flags&FLAG_FIN != 0 { conn.streams[sid].State().CloseThere() }\<close>, which
  panics on the nil of a missing key.
\<close>

definition handle_fin :: "clientConnection \<Rightarrow> uint32 \<Rightarrow> 8 word \<Rightarrow> clientConnection outcome" where
  "handle_fin conn sid flags =
     (if flags AND FLAG_FIN \<noteq> 0 then
        (case map_of (streams conn) sid of
           None \<Rightarrow> Stopped Panicked conn
         | Some s \<Rightarrow>
             Continue (conn\<lparr>stream_objs :=
               (stream_objs conn)(s := State_CloseThere (stream_objs conn s))\<rparr>))
      else Continue conn)"

text \<open>
  \<^verbatim>\<open>handleSynStream\<close>. Where the source has \<^verbatim>\<open>TODO: add handling here\<close> nothing
  happens; the last statement is \<^verbatim>\<open>conn.done.Add(1)\<close>. \<^verbatim>\<open>readFrames\<close> does not
  call this function.
\<close>

fun handleSynStream :: "clientConnection \<Rightarrow> Frame \<Rightarrow> clientConnection outcome" where
  "handleSynStream conn (SynStreamFrame v sid hs) =
     (if goaway conn then Continue conn
      else if sid AND 1 \<noteq> 0 then Continue (benign conn)
      else if sid \<noteq> nextServerStreamID conn + 2 then Continue (benign conn)
      else
        and_then (if sid > MAX_STREAM_ID then PROTOCOL_ERROR conn sid else Continue conn)
          (\<lambda>conn. Continue (conn\<lparr>done_wg := done_wg conn + 1\<rparr>)))"

fun handleRstStream :: "clientConnection \<Rightarrow> Frame \<Rightarrow> clientConnection outcome" where
  "handleRstStream conn (RstStreamFrame v sid code) =
     (if code = RST_STREAM_INVALID_STREAM then Continue (benign conn)
      else if code = RST_STREAM_REFUSED_STREAM then closeStream conn sid
      else if code = RST_STREAM_CANCEL then
        (if sid AND 1 = 0 then Continue (benign conn) else closeStream conn sid)
      else if code = RST_STREAM_FLOW_CONTROL_ERROR then Continue (benign conn)
      else if code = RST_STREAM_STREAM_IN_USE then Continue (benign conn)
      else if code = RST_STREAM_STREAM_ALREADY_CLOSED then Continue (benign conn)
      else if code = RST_STREAM_INVALID_CREDENTIALS then Continue (benign conn)
      else PROTOCOL_ERROR conn sid)"

fun handleDataFrame :: "clientConnection \<Rightarrow> Frame \<Rightarrow> clientConnection outcome" where
  "handleDataFrame conn (DataFrame sid flags bytes) =
     (if sid AND 1 = 0 then Continue (benign conn)
      else if sid \<noteq> nextClientStreamID conn + 2 \<and> sid \<noteq> 1 \<and> nextClientStreamID conn \<noteq> 0
        then Continue (benign conn)
      else
        and_then (send_input conn sid (DataFrame sid flags bytes))
          (\<lambda>conn. handle_fin conn sid flags))"

fun handleHeadersFrame :: "clientConnection \<Rightarrow> Frame \<Rightarrow> clientConnection outcome" where
  "handleHeadersFrame conn (HeadersFrame v sid flags hs) =
     (if sid AND 1 = 0 then Continue (benign conn)
      else if sid \<noteq> nextClientStreamID conn + 2 \<and> sid \<noteq> 1 \<and> nextClientStreamID conn \<noteq> 0
        then Continue (benign conn)
      else
        and_then (send_input conn sid (HeadersFrame v sid flags hs))
          (\<lambda>conn. handle_fin conn sid flags))"

fun handleWindowUpdateFrame :: "clientConnection \<Rightarrow> Frame \<Rightarrow> clientConnection outcome" where
  "handleWindowUpdateFrame conn (WindowUpdateFrame v sid delta) =
     (if sid AND 1 = 0 then Continue (benign conn)
      else if sid \<noteq> nextClientStreamID conn + 2 \<and> sid \<noteq> 1 \<and> nextClientStreamID conn \<noteq> 0
        then Continue (benign conn)
      else
        and_then
          (if delta > MAX_DELTA_WINDOW_SIZE \<or> delta < 1 then PROTOCOL_ERROR conn sid
           else Continue conn)
          (\<lambda>conn. send_input conn sid (WindowUpdateFrame v sid delta)))"

subsection \<open>The ingress loop\<close>

text \<open>The loop of the SETTINGS case: each setting is stored, last write wins.\<close>

fun settings_loop :: "params \<Rightarrow> clientConnection \<Rightarrow> Setting list \<Rightarrow> clientConnection" where
  "settings_loop P conn [] = conn"
| "settings_loop P conn (setting # rest) =
     (let conn1 = conn\<lparr>receivedSettings :=
            AList.update (ID setting) setting (receivedSettings conn)\<rparr>;
          conn2 = (if ID setting = SETTINGS_INITIAL_WINDOW_SIZE P \<and> version conn1 > 2
                   then conn1\<lparr>initialWindowSize := Value setting\<rparr> else conn1)
      in settings_loop P conn2 rest)"

text \<open>The loop of the GOAWAY case: odd streams beyond the last processed one are cancelled.\<close>

fun goaway_loop :: "clientConnection \<Rightarrow> uint32 \<Rightarrow> (uint32 \<times> ref) list \<Rightarrow> clientConnection" where
  "goaway_loop conn lastProcessed [] = conn"
| "goaway_loop conn lastProcessed ((streamID, s) # rest) =
     goaway_loop
       (if streamID AND 1 \<noteq> 0 \<and> streamID > lastProcessed
        then conn\<lparr>stream_objs := (stream_objs conn)(s := Cancel (stream_objs conn s))\<rparr>
        else conn)
       lastProcessed rest"

text \<open>
  The PING case. An odd ping ID is a reply: \<^verbatim>\<open>conn.pings[id] == nil\<close> holds for a
  missing key; otherwise \<^verbatim>\<open>true\<close> is sent on the registered channel, the channel is
  closed and the entry is deleted. An even one is echoed.
\<close>

definition handlePing :: "clientConnection \<Rightarrow> Frame \<Rightarrow> uint32 \<Rightarrow> clientConnection outcome" where
  "handlePing conn frame PingID =
     (if PingID AND 1 \<noteq> 0 then
        (case map_of (pings conn) PingID of
           None \<Rightarrow> Continue (benign conn)
         | Some c \<Rightarrow>
             (case chan_send (bool_chans conn c) True of
                None \<Rightarrow> Stopped Panicked conn
              | Some ch1 \<Rightarrow>
                  (case chan_close ch1 of
                     None \<Rightarrow> Stopped Panicked (conn\<lparr>bool_chans := (bool_chans conn)(c := ch1)\<rparr>)
                   | Some ch2 \<Rightarrow>
                       Continue (conn\<lparr>bool_chans := (bool_chans conn)(c := ch2),
                                      pings := AList.delete PingID (pings conn)\<rparr>))))
      else Continue (WriteFrame conn frame))"

text \<open>
  The \<^verbatim>\<open>switch\<close> of \<^verbatim>\<open>readFrames\<close>. SYN_STREAM, SYN_REPLY, CREDENTIAL and the
  default branch only log. A fatal RST_STREAM makes \<^verbatim>\<open>readFrames\<close> return.
\<close>

fun handleFrame :: "params \<Rightarrow> clientConnection \<Rightarrow> Frame \<Rightarrow> clientConnection outcome" where
  "handleFrame P conn (SynStreamFrame v sid hs) = Continue conn"
| "handleFrame P conn (SynReplyFrame v sid hs) = Continue conn"
| "handleFrame P conn (RstStreamFrame v sid code) =
     (if StatusCodeIsFatal P (uint code) then Stopped Returned conn
      else handleRstStream conn (RstStreamFrame v sid code))"
| "handleFrame P conn (SettingsFrame v settings) = Continue (settings_loop P conn settings)"
| "handleFrame P conn (PingFrame v PingID) = handlePing conn (PingFrame v PingID) PingID"
| "handleFrame P conn (GoawayFrame v lastGood) =
     Continue ((goaway_loop conn lastGood (streams conn))\<lparr>goaway := True\<rparr>)"
| "handleFrame P conn (HeadersFrame v sid flags hs) =
     handleHeadersFrame conn (HeadersFrame v sid flags hs)"
| "handleFrame P conn (WindowUpdateFrame v sid delta) =
     handleWindowUpdateFrame conn (WindowUpdateFrame v sid delta)"
| "handleFrame P conn (CredentialFrame v) = Continue conn"
| "handleFrame P conn (DataFrame sid flags bytes) =
     handleDataFrame conn (DataFrame sid flags bytes)"
| "handleFrame P conn (UnknownFrame v) = Continue conn"

text \<open>
  What \<^verbatim>\<open>ReadFrame\<close> and \<^verbatim>\<open>ReadHeaders\<close> hand to one turn of the loop: the end of
  the input, a read error, a frame whose header block does not decompress, or a frame.
\<close>

datatype arrival = EOF | ReadError | HeadersError Frame | Arrived Frame

text \<open>The check that opens every turn of the loop.\<close>

definition tooManyBenignErrors :: "params \<Rightarrow> clientConnection \<Rightarrow> clientConnection outcome" where
  "tooManyBenignErrors P conn =
     (if numBenignErrors conn > MaxBenignErrors P then PROTOCOL_ERROR conn 0 else Continue conn)"

definition readFrames_step :: "params \<Rightarrow> clientConnection \<Rightarrow> arrival \<Rightarrow> clientConnection outcome" where
  "readFrames_step P conn a =
     and_then (tooManyBenignErrors P conn)
       (\<lambda>conn. case a of
          EOF \<Rightarrow> Stopped Returned conn
        | ReadError \<Rightarrow> Stopped Panicked conn
        | HeadersError frame \<Rightarrow> Stopped Panicked conn
        | Arrived frame \<Rightarrow>
            (if \<not> validFrameVersion conn frame then
               Continue (WriteFrame conn
                 (RstStreamFrame (SPDY_VERSION P) (StreamID frame) RST_STREAM_UNSUPPORTED_VERSION))
             else handleFrame P conn frame))"

text \<open>
  The loop of \<^verbatim>\<open>readFrames\<close> over the arrivals so far. With none left the loop has
  made its check and waits in \<^verbatim>\<open>ReadFrame\<close>.
\<close>

fun readFrames_loop :: "params \<Rightarrow> clientConnection \<Rightarrow> arrival list \<Rightarrow> clientConnection outcome" where
  "readFrames_loop P conn [] = tooManyBenignErrors P conn"
| "readFrames_loop P conn (a # rest) =
     (case readFrames_step P conn a of
        Continue conn' \<Rightarrow> readFrames_loop P conn' rest
      | Stopped why conn' \<Rightarrow> Stopped why conn')"

text \<open>
  \<^verbatim>\<open>readFrames\<close>: before the loop the timeouts are read through \<^verbatim>\<open>conn.client\<close>,
  which panics on nil, as it is on a connection that comes straight from
  \<^verbatim>\<open>newClientConn\<close>; setting the deadlines of the transport changes nothing in the
  model.
\<close>

definition readFrames :: "params \<Rightarrow> clientConnection \<Rightarrow> arrival list \<Rightarrow> clientConnection outcome" where
  "readFrames P conn arrivals =
     (case client conn of
        None \<Rightarrow> Stopped Panicked conn
      | Some cl \<Rightarrow> readFrames_loop P conn arrivals)"


section \<open>Well-formed tables and example connections\<close>

text \<open>
  Invariant I1 of the specification for the client's tables, in the form
  \<^verbatim>\<open>cleanup\<close> relies on: \<^verbatim>\<open>streams\<close> and \<^verbatim>\<open>streamInputs\<close> are maps (no key
  twice) with the same keys, and every registered inbox is a channel of its own that has
  not been closed.
\<close>

definition tables_ok :: "clientConnection \<Rightarrow> bool" where
  "tables_ok conn \<longleftrightarrow>
     distinct (map fst (streams conn)) \<and>
     distinct (map fst (streamInputs conn)) \<and>
     fst ` set (streams conn) = fst ` set (streamInputs conn) \<and>
     distinct (map snd (streamInputs conn)) \<and>
     list_all (\<lambda>(sid, c). \<not> chan_closed (frame_chans conn c)) (streamInputs conn)"

text \<open>
  The ping table as \<^verbatim>\<open>Ping\<close> builds it: every registered channel has been
  allocated, is registered once, is open and has had nothing sent on it.
\<close>

definition pings_ok :: "clientConnection \<Rightarrow> bool" where
  "pings_ok conn \<longleftrightarrow>
     distinct (map snd (pings conn)) \<and>
     list_all (\<lambda>(pid, c). c < next_ref conn \<and> bool_chans conn c = make_chan) (pings conn)"

text \<open>The store after the channels in \<open>R\<close> were closed, and after the streams in \<open>R\<close> were stopped.\<close>

definition closed_where :: "ref set \<Rightarrow> (ref \<Rightarrow> 'a chan) \<Rightarrow> ref \<Rightarrow> 'a chan" where
  "closed_where R h = (\<lambda>c. if c \<in> R then (h c)\<lparr>chan_closed := True\<rparr> else h c)"

definition stopped_where :: "ref set \<Rightarrow> (ref \<Rightarrow> StreamObj) \<Rightarrow> ref \<Rightarrow> StreamObj" where
  "stopped_where R h = (\<lambda>s. if s \<in> R then Stop (h s) else h s)"

text \<open>
  Parameters with the values the specification gives: an error budget of 10, SPDY
  version 3, a default window of 64 KiB, and PROTOCOL_ERROR and UNSUPPORTED_VERSION as
  the fatal status codes. 7 is the ID of SETTINGS_INITIAL_WINDOW_SIZE in SPDY/3.
\<close>

definition example_params :: params where
  "example_params = \<lparr>MaxBenignErrors = 10, SPDY_VERSION = 3,
     SETTINGS_INITIAL_WINDOW_SIZE = 7, DEFAULT_INITIAL_CLIENT_WINDOW_SIZE = 65536,
     StatusCodeIsFatal = (\<lambda>code. code = 1 \<or> code = 4)\<rparr>"

text \<open>A client without timeouts or settings of its own.\<close>

definition example_client :: Client where
  "example_client = \<lparr>ReadTimeout = 0, WriteTimeout = 0, GlobalSettings = []\<rparr>"

text \<open>A SPDY/3 client connection on which streams 1 and 3 are open.\<close>

definition example_conn :: clientConnection where
  "example_conn = (newClientConn example_params)\<lparr>client := Some example_client, version := 3,
     streams := [(1, 0), (3, 1)], streamInputs := [(1, 0), (3, 1)], next_ref := 2\<rparr>"

text \<open>
  A SPDY/3 server connection without streams and without timeouts, on which client
  stream 1 counts as the last one accepted.
\<close>

definition example_server :: connection where
  "example_server = \<lparr>s_server = Some \<lparr>s_ReadTimeout = 0, s_WriteTimeout = 0\<rparr>,
     s_tlsState = Some (), s_streams = [], s_buffer = [], s_queue = [],
     s_nextServerStreamID = 0, s_nextClientStreamID = 1,
     s_goaway = False, s_version = 3, s_written = []\<rparr>"


section \<open>Properties\<close>

subsection \<open>Auxiliary facts\<close>

lemmas rst_codes =
  RST_STREAM_PROTOCOL_ERROR_def RST_STREAM_INVALID_STREAM_def RST_STREAM_REFUSED_STREAM_def
  RST_STREAM_UNSUPPORTED_VERSION_def RST_STREAM_CANCEL_def RST_STREAM_INTERNAL_ERROR_def
  RST_STREAM_FLOW_CONTROL_ERROR_def RST_STREAM_STREAM_IN_USE_def
  RST_STREAM_STREAM_ALREADY_CLOSED_def RST_STREAM_INVALID_CREDENTIALS_def

lemma and_then_Continue [simp]: "and_then (Continue c) f = f c"
  by (simp add: and_then_def)

lemma and_then_Stopped [simp]: "and_then (Stopped w c) f = Stopped w c"
  by (simp add: and_then_def)

lemma closed_where_upd:
  "closed_where R (h(c := (h c)\<lparr>chan_closed := True\<rparr>)) = closed_where (insert c R) h"
  by (auto simp: closed_where_def fun_eq_iff)

lemma stopped_where_upd:
  "stopped_where R (h(s := Stop (h s))) = stopped_where (insert s R) h"
  by (auto simp: stopped_where_def fun_eq_iff Stop_def)

lemma cleanup_loop_ok:
  assumes "distinct (map snd xs)"
    and "list_all (\<lambda>(sid, c). \<not> chan_closed (frame_chans conn c)) xs"
    and "fst ` set xs \<subseteq> fst ` set (streams conn)"
  shows "cleanup_loop conn xs =
    Continue (conn\<lparr>frame_chans := closed_where (snd ` set xs) (frame_chans conn),
                   stream_objs := stopped_where ((\<lambda>sid. the (map_of (streams conn) sid)) ` fst ` set xs) (stream_objs conn)\<rparr>)"
  using assms
proof (induction xs arbitrary: conn)
  case Nil
  then show ?case by (simp add: closed_where_def stopped_where_def)
next
  case (Cons x xs)
  obtain sid c where x: "x = (sid, c)" by (cases x)
  from Cons.prems x have op: "\<not> chan_closed (frame_chans conn c)" by simp
  from Cons.prems x have "sid \<in> fst ` set (streams conn)" by simp
  then obtain s where s: "map_of (streams conn) sid = Some s"
    by (metis domD dom_map_of_conv_image_fst)
  let ?conn2 = "conn\<lparr>frame_chans := (frame_chans conn)(c := (frame_chans conn c)\<lparr>chan_closed := True\<rparr>),
                    stream_objs := (stream_objs conn)(s := Stop (stream_objs conn s))\<rparr>"
  have c_fresh: "c \<notin> snd ` set xs" using Cons.prems x by auto
  have 1: "list_all (\<lambda>(sid, c). \<not> chan_closed (frame_chans ?conn2 c)) xs"
  proof -
    have "\<forall>p\<in>set xs. snd p \<noteq> c" using c_fresh by force
    moreover have "\<forall>p\<in>set xs. \<not> chan_closed (frame_chans conn (snd p))"
      using Cons.prems(2) by (auto simp: list_all_iff)
    ultimately show ?thesis by (auto simp: list_all_iff)
  qed
  have step: "cleanup_loop conn (x # xs) = cleanup_loop ?conn2 xs"
    using op s x by (simp add: chan_close_def)
  have "cleanup_loop ?conn2 xs = Continue (?conn2\<lparr>frame_chans := closed_where (snd ` set xs) (frame_chans ?conn2),
                   stream_objs := stopped_where ((\<lambda>sid. the (map_of (streams ?conn2) sid)) ` fst ` set xs) (stream_objs ?conn2)\<rparr>)"
    using Cons.prems 1 by (intro Cons.IH) auto
  then have "cleanup_loop ?conn2 xs = Continue (conn\<lparr>frame_chans := closed_where (snd ` set (x # xs)) (frame_chans conn),
                   stream_objs := stopped_where ((\<lambda>sid. the (map_of (streams conn) sid)) ` fst ` set (x # xs)) (stream_objs conn)\<rparr>)"
    using s x by (simp add: closed_where_upd stopped_where_upd)
  with step show ?case by simp
qed

lemma cleanup_loop_dataOutput:
  "dataOutput (state_of (cleanup_loop conn xs)) = dataOutput conn"
  by (induction conn xs rule: cleanup_loop.induct)
     (auto simp: Let_def split: option.splits)

lemma cleanup_loop_sent:
  "sent (frame_chans (state_of (cleanup_loop conn xs)) r) = sent (frame_chans conn r)"
  by (induction conn xs rule: cleanup_loop.induct)
     (auto simp: Let_def chan_close_def split: option.splits if_splits)

lemma cleanup_dataOutput: "dataOutput (state_of (cleanup conn)) = dataOutput conn"
  using cleanup_loop_dataOutput [of conn "streamInputs conn"]
  by (cases "cleanup_loop conn (streamInputs conn)") (auto simp: cleanup_def)

lemma cleanup_sent: "sent (frame_chans (state_of (cleanup conn)) r) = sent (frame_chans conn r)"
  using cleanup_loop_sent [of conn "streamInputs conn" r]
  by (cases "cleanup_loop conn (streamInputs conn)") (auto simp: cleanup_def)

lemma PROTOCOL_ERROR_stops: "\<not> is_Continue (PROTOCOL_ERROR conn sid)"
  by (simp add: PROTOCOL_ERROR_def and_then_def split: outcome.splits)

lemma PROTOCOL_ERROR_dataOutput:
  "dataOutput (state_of (PROTOCOL_ERROR conn sid)) =
     dataOutput conn @ [RstStreamFrame (word_of_int (version conn)) sid RST_STREAM_PROTOCOL_ERROR]"
proof -
  let ?c = "WriteFrame conn (RstStreamFrame (word_of_int (version conn)) sid RST_STREAM_PROTOCOL_ERROR)"
  have "dataOutput (state_of (PROTOCOL_ERROR conn sid)) = dataOutput (state_of (cleanup ?c))"
    by (cases "cleanup ?c") (simp_all add: PROTOCOL_ERROR_def)
  then show ?thesis by (simp add: cleanup_dataOutput WriteFrame_def)
qed

lemma PROTOCOL_ERROR_sent:
  "sent (frame_chans (state_of (PROTOCOL_ERROR conn sid)) r) = sent (frame_chans conn r)"
proof -
  let ?c = "WriteFrame conn (RstStreamFrame (word_of_int (version conn)) sid RST_STREAM_PROTOCOL_ERROR)"
  have "frame_chans (state_of (PROTOCOL_ERROR conn sid)) = frame_chans (state_of (cleanup ?c))"
    by (cases "cleanup ?c") (simp_all add: PROTOCOL_ERROR_def)
  then show ?thesis by (simp add: cleanup_sent WriteFrame_def)
qed

lemma cleanup_loop_why: "cleanup_loop conn xs = Stopped w c \<Longrightarrow> w = Panicked"
  by (induction conn xs rule: cleanup_loop.induct)
     (auto simp: Let_def split: option.splits)

lemma PROTOCOL_ERROR_why:
  "why_stopped (PROTOCOL_ERROR conn sid) = Goexit \<or> why_stopped (PROTOCOL_ERROR conn sid) = Panicked"
  by (auto simp: PROTOCOL_ERROR_def cleanup_def and_then_def
      split: outcome.splits dest: cleanup_loop_why)

lemma cleanup_ok:
  assumes "tables_ok conn"
  shows "cleanup conn = Continue (conn\<lparr>
           frame_chans := closed_where (snd ` set (streamInputs conn)) (frame_chans conn),
           stream_objs := stopped_where (snd ` set (streams conn)) (stream_objs conn),
           streamInputs := [], streams := []\<rparr>)"
proof -
  have img: "(\<lambda>sid. the (map_of (streams conn) sid)) ` fst ` set (streamInputs conn) = snd ` set (streams conn)"
  proof -
    have "fst ` set (streamInputs conn) = fst ` set (streams conn)"
      using assms by (simp add: tables_ok_def)
    moreover have "(\<lambda>sid. the (map_of (streams conn) sid)) ` fst ` set (streams conn) = snd ` set (streams conn)"
      using assms by (force simp: tables_ok_def image_iff)
    ultimately show ?thesis by simp
  qed
  have "cleanup_loop conn (streamInputs conn) = Continue (conn\<lparr>
      frame_chans := closed_where (snd ` set (streamInputs conn)) (frame_chans conn),
      stream_objs := stopped_where ((\<lambda>sid. the (map_of (streams conn) sid)) ` fst ` set (streamInputs conn)) (stream_objs conn)\<rparr>)"
    using assms by (intro cleanup_loop_ok) (auto simp: tables_ok_def)
  then show ?thesis by (simp add: cleanup_def img)
qed

lemma tables_ok_WriteFrame: "tables_ok (WriteFrame conn f) = tables_ok conn"
  by (simp add: tables_ok_def WriteFrame_def)

lemma PROTOCOL_ERROR_ok:
  assumes "tables_ok conn"
  shows "PROTOCOL_ERROR conn sid = Stopped Goexit (conn\<lparr>
           dataOutput := dataOutput conn @ [RstStreamFrame (word_of_int (version conn)) sid RST_STREAM_PROTOCOL_ERROR],
           frame_chans := closed_where (snd ` set (streamInputs conn)) (frame_chans conn),
           stream_objs := stopped_where (snd ` set (streams conn)) (stream_objs conn),
           streamInputs := [], streams := []\<rparr>)"
  using assms
  by (simp add: PROTOCOL_ERROR_def cleanup_ok tables_ok_WriteFrame) (simp add: WriteFrame_def)

lemma and_then_PROTOCOL_ERROR [simp]:
  "and_then (PROTOCOL_ERROR conn sid) f = PROTOCOL_ERROR conn sid"
  using PROTOCOL_ERROR_stops [of conn sid]
  by (cases "PROTOCOL_ERROR conn sid") simp_all

lemma PROTOCOL_ERROR_not_Continue [simp]: "PROTOCOL_ERROR conn sid \<noteq> Continue conn'"
  using PROTOCOL_ERROR_stops [of conn sid] by auto

lemma and_then_ContinueD:
  "and_then r f = Continue c' \<Longrightarrow> \<exists>c. r = Continue c \<and> f c = Continue c'"
  by (cases r) simp_all

text \<open>
  A frame reaches the \<^verbatim>\<open>switch\<close> of \<^verbatim>\<open>readFrames\<close> when the error budget is not
  exhausted and the frame passes the version check.
\<close>

lemma readFrames_step_dispatch:
  "\<not> numBenignErrors conn > MaxBenignErrors P \<Longrightarrow> validFrameVersion conn frame \<Longrightarrow>
     readFrames_step P conn (Arrived frame) = handleFrame P conn frame"
  by (simp add: readFrames_step_def tooManyBenignErrors_def)

lemma closeStream_ok:
  assumes "sid \<noteq> 0" and "map_of (streams conn) sid = Some s"
    and "map_of (streamInputs conn) sid = Some c" and "\<not> chan_closed (frame_chans conn c)"
  shows "closeStream conn sid =
    Continue (conn\<lparr>stream_objs := (stream_objs conn)(s := State_Close (Stop (stream_objs conn s))),
                   frame_chans := (frame_chans conn)(c := (frame_chans conn c)\<lparr>chan_closed := True\<rparr>),
                   streams := AList.delete sid (streams conn)\<rparr>)"
  using assms by (simp add: closeStream_def chan_close_def Let_def)

lemma closeStream_streamInputs_unchanged:
  "closeStream conn sid = Continue conn' \<Longrightarrow> streamInputs conn' = streamInputs conn"
  by (auto simp: closeStream_def Let_def split: if_splits option.splits)

subsection \<open>What the frames leave alone\<close>

text \<open>
  Apart from the PING case no frame touches the ping table, the ping channels or the
  allocator, and no frame adds to \<^verbatim>\<open>streams\<close> or changes \<^verbatim>\<open>streamInputs\<close>.
\<close>

lemma settings_loop_view:
  "pings (settings_loop P conn ss) = pings conn
   \<and> bool_chans (settings_loop P conn ss) = bool_chans conn
   \<and> next_ref (settings_loop P conn ss) = next_ref conn
   \<and> streams (settings_loop P conn ss) = streams conn
   \<and> streamInputs (settings_loop P conn ss) = streamInputs conn"
  by (induction P conn ss rule: settings_loop.induct) (simp_all add: Let_def)

lemma goaway_loop_view:
  "pings (goaway_loop conn l xs) = pings conn
   \<and> bool_chans (goaway_loop conn l xs) = bool_chans conn
   \<and> next_ref (goaway_loop conn l xs) = next_ref conn
   \<and> streams (goaway_loop conn l xs) = streams conn
   \<and> streamInputs (goaway_loop conn l xs) = streamInputs conn"
  by (induction conn l xs rule: goaway_loop.induct) simp_all

lemma closeStream_view:
  "closeStream conn sid = Continue conn' \<Longrightarrow>
     pings conn' = pings conn \<and> bool_chans conn' = bool_chans conn \<and> next_ref conn' = next_ref conn
     \<and> streamInputs conn' = streamInputs conn \<and> (streams conn = [] \<longrightarrow> streams conn' = [])"
  by (auto simp: closeStream_def Let_def split: if_splits option.splits)

lemma send_input_view:
  "send_input conn sid f = Continue conn' \<Longrightarrow>
     pings conn' = pings conn \<and> bool_chans conn' = bool_chans conn \<and> next_ref conn' = next_ref conn
     \<and> streamInputs conn' = streamInputs conn \<and> streams conn' = streams conn"
  by (auto simp: send_input_def split: option.splits)

lemma handle_fin_view:
  "handle_fin conn sid flags = Continue conn' \<Longrightarrow>
     pings conn' = pings conn \<and> bool_chans conn' = bool_chans conn \<and> next_ref conn' = next_ref conn
     \<and> streamInputs conn' = streamInputs conn \<and> streams conn' = streams conn"
  by (auto simp: handle_fin_def split: option.splits if_splits)

lemma handleFrame_view:
  assumes "handleFrame P conn frame = Continue conn'" and "\<forall>v pid. frame \<noteq> PingFrame v pid"
  shows "pings conn' = pings conn \<and> bool_chans conn' = bool_chans conn \<and> next_ref conn' = next_ref conn
     \<and> streamInputs conn' = streamInputs conn \<and> (streams conn = [] \<longrightarrow> streams conn' = [])"
proof (cases frame)
  case (RstStreamFrame v sid code)
  with assms show ?thesis
    by (auto simp: benign_def split: if_splits dest!: closeStream_view)
next
  case (SettingsFrame v ss)
  with assms show ?thesis using settings_loop_view [of P conn ss] by auto
next
  case (GoawayFrame v l)
  with assms show ?thesis using goaway_loop_view [of conn l "streams conn"] by auto
next
  case (HeadersFrame v sid flags hs)
  with assms show ?thesis
    by (auto simp: benign_def split: if_splits dest!: and_then_ContinueD send_input_view handle_fin_view)
next
  case (WindowUpdateFrame v sid delta)
  with assms show ?thesis
    by (auto simp: benign_def split: if_splits dest!: and_then_ContinueD send_input_view)
next
  case (DataFrame sid flags bytes)
  with assms show ?thesis
    by (auto simp: benign_def split: if_splits dest!: and_then_ContinueD send_input_view handle_fin_view)
qed (use assms in auto)

subsection \<open>The tables of a new connection\<close>

text \<open>
  Nothing in the client file adds a stream: on a connection made by
  \<^verbatim>\<open>newClientConn\<close> both tables stay empty, and so well formed, for as long as the
  loop runs.
\<close>

lemma tables_stay_empty:
  assumes "streams conn = []" and "streamInputs conn = []"
    and "readFrames_step P conn a = Continue conn'"
  shows "streams conn' = [] \<and> streamInputs conn' = []"
proof -
  from assms(3) have nb: "\<not> numBenignErrors conn > MaxBenignErrors P"
    by (auto simp: readFrames_step_def tooManyBenignErrors_def)
  show ?thesis
  proof (cases a)
    case (Arrived frame)
    show ?thesis
    proof (cases "validFrameVersion conn frame")
      case True
      with assms(3) nb Arrived have h: "handleFrame P conn frame = Continue conn'"
        by (simp add: readFrames_step_dispatch)
      show ?thesis
      proof (cases "\<exists>v pid. frame = PingFrame v pid")
        case True
        with h assms(1,2) show ?thesis
          by (auto simp: handlePing_def benign_def WriteFrame_def split: if_splits option.splits)
      next
        case False
        with h assms(1,2) show ?thesis
          using handleFrame_view [of P conn frame conn'] by simp
      qed
    next
      case False
      with assms nb Arrived show ?thesis
        by (auto simp: readFrames_step_def tooManyBenignErrors_def WriteFrame_def)
    qed
  qed (use assms nb in \<open>auto simp: readFrames_step_def tooManyBenignErrors_def\<close>)
qed

lemma empty_tables_ok: "streams conn = [] \<Longrightarrow> streamInputs conn = [] \<Longrightarrow> tables_ok conn"
  by (simp add: tables_ok_def)

subsection \<open>Registered notifiers are one-shot\<close>

text \<open>
  Every channel in \<^verbatim>\<open>pings\<close> is as \<^verbatim>\<open>Ping\<close> made it, open and with nothing sent:
  this holds on a new connection and is kept by \<^verbatim>\<open>Ping\<close> and by every turn of the
  loop. So the reply of claim C5 finds its channel open, and leaves it with the single
  value \<^verbatim>\<open>true\<close>.
\<close>

lemma set_update_subset: "set (AList.update k v al) \<subseteq> insert (k, v) (set al)"
  by (induction al) auto

lemma distinct_snd_update:
  "distinct (map snd al) \<Longrightarrow> v \<notin> snd ` set al \<Longrightarrow> distinct (map snd (AList.update k v al))"
proof (induction al)
  case Nil
  then show ?case by simp
next
  case (Cons p al)
  have "snd ` set (AList.update k v al) \<subseteq> insert v (snd ` set al)"
    using set_update_subset [of k v al] by force
  with Cons show ?case by (cases p) auto
qed

lemma pings_ok_new: "pings_ok (newClientConn P)"
  by (simp add: pings_ok_def newClientConn_def)

lemma pings_ok_Ping:
  assumes "pings_ok conn"
  shows "pings_ok (fst (Ping conn))"
proof -
  let ?c = "next_ref conn"
  have fresh: "?c \<notin> snd ` set (pings conn)"
    using assms by (force simp: pings_ok_def list_all_iff)
  have d: "distinct (map snd (AList.update (pingID conn) ?c (pings conn)))"
    using assms fresh by (simp add: pings_ok_def distinct_snd_update)
  have "\<forall>(pid, c) \<in> set (AList.update (pingID conn) ?c (pings conn)).
          c < Suc ?c \<and> ((bool_chans conn)(?c := make_chan)) c = make_chan"
    using assms set_update_subset [of "pingID conn" ?c "pings conn"]
    by (fastforce simp: pings_ok_def list_all_iff)
  with d show ?thesis
    by (simp add: pings_ok_def Ping_def Let_def list_all_iff)
qed

lemma pings_ok_reply:
  assumes "pings_ok conn" and "handlePing conn frame pid = Continue conn'"
  shows "pings_ok conn'"
proof (cases "pid AND 1 \<noteq> 0")
  case False
  with assms show ?thesis by (auto simp: handlePing_def WriteFrame_def pings_ok_def)
next
  case True
  show ?thesis
  proof (cases "map_of (pings conn) pid")
    case None
    with True assms show ?thesis by (auto simp: handlePing_def benign_def pings_ok_def)
  next
    case (Some c)
    then have mem: "(pid, c) \<in> set (pings conn)" by (rule map_of_SomeD)
    from assms(1) have inj: "inj_on snd (set (pings conn))"
      by (simp add: pings_ok_def distinct_map)
    have other: "c' \<noteq> c" if "(pid', c') \<in> set (pings conn)" "pid' \<noteq> pid" for pid' c'
    proof
      assume "c' = c"
      with that(1) have "(pid', c) \<in> set (pings conn)" by simp
      with mem have "(pid', c) = (pid, c)"
        using inj_onD [OF inj, of "(pid', c)" "(pid, c)"] by simp
      with that(2) show False by simp
    qed
    from assms True Some obtain ch where
      conn': "conn' = conn\<lparr>bool_chans := (bool_chans conn)(c := ch),
                pings := AList.delete pid (pings conn)\<rparr>"
      by (auto simp: handlePing_def split: option.splits)
    have "distinct (map snd (AList.delete pid (pings conn)))"
      using assms(1) by (simp add: pings_ok_def AList.delete_eq distinct_map_filter)
    moreover have "\<forall>(pid', c') \<in> set (AList.delete pid (pings conn)).
        c' < next_ref conn \<and> ((bool_chans conn)(c := ch)) c' = make_chan"
      using assms(1) other by (auto simp: pings_ok_def list_all_iff AList.delete_eq)
    ultimately show ?thesis by (simp add: conn' pings_ok_def list_all_iff)
  qed
qed

lemma pings_ok_handleFrame:
  assumes "pings_ok conn" and "handleFrame P conn frame = Continue conn'"
  shows "pings_ok conn'"
proof (cases "\<exists>v pid. frame = PingFrame v pid")
  case True
  with assms show ?thesis by (auto dest: pings_ok_reply)
next
  case False
  with assms(2) have "pings conn' = pings conn \<and> bool_chans conn' = bool_chans conn
      \<and> next_ref conn' = next_ref conn"
    using handleFrame_view [of P conn frame conn'] by simp
  with assms(1) show ?thesis by (simp add: pings_ok_def)
qed

lemma pings_ok_readFrames_step:
  assumes "pings_ok conn" and "readFrames_step P conn a = Continue conn'"
  shows "pings_ok conn'"
proof -
  from assms(2) have nb: "\<not> numBenignErrors conn > MaxBenignErrors P"
    by (auto simp: readFrames_step_def tooManyBenignErrors_def)
  show ?thesis
  proof (cases a)
    case (Arrived frame)
    show ?thesis
    proof (cases "validFrameVersion conn frame")
      case True
      with assms nb Arrived show ?thesis
        by (auto simp: readFrames_step_dispatch dest: pings_ok_handleFrame)
    next
      case False
      with assms nb Arrived show ?thesis
        by (auto simp: readFrames_step_def tooManyBenignErrors_def WriteFrame_def pings_ok_def)
    qed
  qed (use assms nb in \<open>auto simp: readFrames_step_def tooManyBenignErrors_def\<close>)
qed

lemma registered_notifier_is_fresh:
  "pings_ok conn \<Longrightarrow> map_of (pings conn) pid = Some c \<Longrightarrow> bool_chans conn c = make_chan"
  by (auto simp: pings_ok_def list_all_iff dest!: map_of_SomeD)

text \<open>What \<^verbatim>\<open>Ping\<close> leaves behind: the frame on the queue and a new, open channel in the table.\<close>

lemma Ping_registers:
  "map_of (pings (fst (Ping conn))) (pingID conn) = Some (snd (Ping conn))
   \<and> bool_chans (fst (Ping conn)) (snd (Ping conn)) = make_chan
   \<and> pingID (fst (Ping conn)) = pingID conn + 2
   \<and> dataOutput (fst (Ping conn)) = dataOutput conn @ [PingFrame (word_of_int (version conn) ) (pingID conn)]"
  by (simp add: Ping_def Let_def update_conv')

subsection \<open>The error budget\<close>

text \<open>
  On a connection whose tables are well formed (invariant I1, which holds in particular
  while the tables are empty) an exhausted error budget ends the connection in good
  order. Whenever the benign error count exceeds \<^verbatim>\<open>MaxBenignErrors\<close>, the next turn
  of the ingress loop reads no frame and is \<^verbatim>\<open>PROTOCOL_ERROR(0)\<close>: an RST_STREAM
  with stream ID 0 and status PROTOCOL_ERROR is appended to the outbound queue, and the
  ingress task ends there. With well-formed tables \<^verbatim>\<open>cleanup\<close> runs to its end: the
  task ends by \<^verbatim>\<open>Goexit\<close>, every registered inbox is closed, every registered stream
  is stopped, and both tables are empty.
\<close>

lemma benign_overflow_is_fatal:
  assumes "numBenignErrors conn > MaxBenignErrors P"
  shows "readFrames_step P conn a = PROTOCOL_ERROR conn 0
    \<and> \<not> is_Continue (readFrames_step P conn a)
    \<and> dataOutput (state_of (readFrames_step P conn a)) =
        dataOutput conn @ [RstStreamFrame (word_of_int (version conn)) 0 RST_STREAM_PROTOCOL_ERROR]
    \<and> (tables_ok conn \<longrightarrow>
        why_stopped (readFrames_step P conn a) = Goexit
        \<and> (\<forall>(sid, c) \<in> set (streamInputs conn).
              chan_closed (frame_chans (state_of (readFrames_step P conn a)) c))
        \<and> (\<forall>(sid, s) \<in> set (streams conn).
              stopped (stream_objs (state_of (readFrames_step P conn a)) s))
        \<and> streamInputs (state_of (readFrames_step P conn a)) = []
        \<and> streams (state_of (readFrames_step P conn a)) = [])"
proof -
  have eq: "readFrames_step P conn a = PROTOCOL_ERROR conn 0"
    using assms PROTOCOL_ERROR_stops [of conn 0]
    by (cases "PROTOCOL_ERROR conn 0") (simp_all add: readFrames_step_def tooManyBenignErrors_def)
  have ok: "tables_ok conn \<Longrightarrow>
        why_stopped (PROTOCOL_ERROR conn 0) = Goexit
        \<and> (\<forall>(sid, c) \<in> set (streamInputs conn).
              chan_closed (frame_chans (state_of (PROTOCOL_ERROR conn 0)) c))
        \<and> (\<forall>(sid, s) \<in> set (streams conn).
              stopped (stream_objs (state_of (PROTOCOL_ERROR conn 0)) s))
        \<and> streamInputs (state_of (PROTOCOL_ERROR conn 0)) = []
        \<and> streams (state_of (PROTOCOL_ERROR conn 0)) = []"
    by (force simp: PROTOCOL_ERROR_ok closed_where_def stopped_where_def Stop_def)
  show ?thesis
    unfolding eq using ok by (simp add: PROTOCOL_ERROR_stops PROTOCOL_ERROR_dataOutput)
qed

lemma benign_overflow_is_fatal_example:
  "numBenignErrors (example_conn\<lparr>numBenignErrors := 11\<rparr>) > MaxBenignErrors example_params
   \<and> tables_ok (example_conn\<lparr>numBenignErrors := 11\<rparr>)
   \<and> why_stopped (readFrames_step example_params (example_conn\<lparr>numBenignErrors := 11\<rparr>) (Arrived (PingFrame 3 1))) = Goexit
   \<and> dataOutput (state_of (readFrames_step example_params (example_conn\<lparr>numBenignErrors := 11\<rparr>) (Arrived (PingFrame 3 1)))) = [RstStreamFrame 3 0 1]
   \<and> chan_closed (frame_chans (state_of (readFrames_step example_params (example_conn\<lparr>numBenignErrors := 11\<rparr>) (Arrived (PingFrame 3 1)))) 1)"
proof -
  let ?c = "example_conn\<lparr>numBenignErrors := 11\<rparr>"
  have h: "numBenignErrors ?c > MaxBenignErrors example_params"
    by (simp add: example_params_def)
  have t: "tables_ok ?c"
    by (simp add: tables_ok_def example_conn_def newClientConn_def make_chan_def)
  have d: "dataOutput ?c @ [RstStreamFrame (word_of_int (version ?c)) 0 RST_STREAM_PROTOCOL_ERROR]
      = [RstStreamFrame 3 0 1]"
    by (simp add: example_conn_def newClientConn_def RST_STREAM_PROTOCOL_ERROR_def)
  have m: "(3, 1) \<in> set (streamInputs ?c)"
    by (simp add: example_conn_def)
  from benign_overflow_is_fatal [OF h, of "Arrived (PingFrame 3 1)"] h t d m
  show ?thesis by auto
qed

text \<open>
  Scenario 6 of the specification, on a new connection that has been given its client:
  eleven PING replies for an ID that was never registered, and the loop ends with the
  RST_STREAM on the queue. Without a client \<^verbatim>\<open>readFrames\<close> panics before its loop.
\<close>

lemma benign_budget_overflow_scenario:
  "why_stopped (readFrames example_params
      ((newClientConn example_params)\<lparr>client := Some example_client, version := 3\<rparr>)
      (replicate 11 (Arrived (PingFrame 3 1)))) = Goexit
  \<and> dataOutput (state_of (readFrames example_params
      ((newClientConn example_params)\<lparr>client := Some example_client, version := 3\<rparr>)
      (replicate 11 (Arrived (PingFrame 3 1))))) = [RstStreamFrame 3 0 1]"
  by code_simp

lemma readFrames_without_client:
  "readFrames P (newClientConn P) arrivals = Stopped Panicked (newClientConn P)"
  by (simp add: readFrames_def newClientConn_def)

text \<open>
  Once an inbox in the table is closed, \<^verbatim>\<open>cleanup\<close> cannot run to its end, in
  whatever order the table is visited: it panics, and the tables stay as they were.
\<close>

lemma cleanup_loop_tables:
  "streams (state_of (cleanup_loop conn xs)) = streams conn
   \<and> streamInputs (state_of (cleanup_loop conn xs)) = streamInputs conn"
  by (induction conn xs rule: cleanup_loop.induct)
     (auto simp: Let_def split: option.splits)

lemma cleanup_loop_closed_inbox:
  "(sid, c) \<in> set xs \<Longrightarrow> chan_closed (frame_chans conn c) \<Longrightarrow> \<not> is_Continue (cleanup_loop conn xs)"
proof (induction conn xs rule: cleanup_loop.induct)
  case (1 conn)
  then show ?case by simp
next
  case (2 conn streamID c' rest)
  show ?case
  proof (cases "chan_close (frame_chans conn c')")
    case None
    then show ?thesis by simp
  next
    case (Some ch)
    let ?conn1 = "conn\<lparr>frame_chans := (frame_chans conn)(c' := ch)\<rparr>"
    show ?thesis
    proof (cases "map_of (streams ?conn1) streamID")
      case None
      with Some show ?thesis by simp
    next
      case (Some s)
      let ?conn2 = "?conn1\<lparr>stream_objs := (stream_objs ?conn1)(s := Stop (stream_objs ?conn1 s))\<rparr>"
      from \<open>chan_close (frame_chans conn c') = Some ch\<close> have open': "\<not> chan_closed (frame_chans conn c')"
        and ch: "chan_closed ch"
        by (auto simp: chan_close_def split: if_splits)
      from open' "2.prems" have "(sid, c) \<in> set rest" by auto
      moreover have "chan_closed (frame_chans ?conn2 c)"
        using "2.prems"(2) ch by simp
      ultimately have "\<not> is_Continue (cleanup_loop ?conn2 rest)"
        using "2.IH" [OF \<open>chan_close (frame_chans conn c') = Some ch\<close> refl Some] by simp
      with \<open>chan_close (frame_chans conn c') = Some ch\<close> Some show ?thesis by simp
    qed
  qed
qed

lemma PROTOCOL_ERROR_closed_inbox:
  assumes "(sid, c) \<in> set (streamInputs conn)" and "chan_closed (frame_chans conn c)"
  shows "why_stopped (PROTOCOL_ERROR conn streamID) = Panicked
    \<and> streams (state_of (PROTOCOL_ERROR conn streamID)) = streams conn
    \<and> streamInputs (state_of (PROTOCOL_ERROR conn streamID)) = streamInputs conn"
proof -
  let ?c = "WriteFrame conn
    (RstStreamFrame (word_of_int (version conn)) streamID RST_STREAM_PROTOCOL_ERROR)"
  from assms have "\<not> is_Continue (cleanup_loop ?c (streamInputs ?c))"
    by (intro cleanup_loop_closed_inbox [of sid c]) (simp_all add: WriteFrame_def)
  then obtain w c' where st: "cleanup_loop ?c (streamInputs ?c) = Stopped w c'"
    by (cases "cleanup_loop ?c (streamInputs ?c)") auto
  then have w: "w = Panicked" by (rule cleanup_loop_why)
  from st cleanup_loop_tables [of ?c "streamInputs ?c"]
  have "streams c' = streams conn \<and> streamInputs c' = streamInputs conn"
    by (simp add: WriteFrame_def)
  with st w show ?thesis by (simp add: PROTOCOL_ERROR_def cleanup_def)
qed

text \<open>
  Claim C1 says that in every state with the budget exceeded the next turn of the loop
  queues the RST_STREAM for stream 0, closes every inbox, stops every stream and ends
  the task. Take the connection with streams 1 and 3 open after \<^verbatim>\<open>closeStream(1)\<close>,
  which has left the closed inbox of stream 1 in \<^verbatim>\<open>streamInputs\<close>, and let the
  benign error count be 11. The next turn queues the RST_STREAM and then panics in
  \<^verbatim>\<open>cleanup\<close>, on closing that inbox again: stream 3 is not stopped, its inbox is
  not closed, and both tables keep their entries.
\<close>

theorem benign_overflow_after_closeStream:
  "is_Continue (closeStream example_conn 1)
   \<and> MaxBenignErrors example_params
        < numBenignErrors ((state_of (closeStream example_conn 1))\<lparr>numBenignErrors := 11\<rparr>)
   \<and> why_stopped (readFrames_step example_params
        ((state_of (closeStream example_conn 1))\<lparr>numBenignErrors := 11\<rparr>)
        (Arrived (PingFrame 3 1))) = Panicked
   \<and> dataOutput (state_of (readFrames_step example_params
        ((state_of (closeStream example_conn 1))\<lparr>numBenignErrors := 11\<rparr>)
        (Arrived (PingFrame 3 1)))) = [RstStreamFrame 3 0 RST_STREAM_PROTOCOL_ERROR]
   \<and> map_of (streams (state_of (readFrames_step example_params
        ((state_of (closeStream example_conn 1))\<lparr>numBenignErrors := 11\<rparr>)
        (Arrived (PingFrame 3 1))))) 3 = Some 1
   \<and> \<not> stopped (stream_objs (state_of (readFrames_step example_params
        ((state_of (closeStream example_conn 1))\<lparr>numBenignErrors := 11\<rparr>)
        (Arrived (PingFrame 3 1)))) 1)
   \<and> map_of (streamInputs (state_of (readFrames_step example_params
        ((state_of (closeStream example_conn 1))\<lparr>numBenignErrors := 11\<rparr>)
        (Arrived (PingFrame 3 1))))) 3 = Some 1
   \<and> \<not> chan_closed (frame_chans (state_of (readFrames_step example_params
        ((state_of (closeStream example_conn 1))\<lparr>numBenignErrors := 11\<rparr>)
        (Arrived (PingFrame 3 1)))) 1)
   \<and> map fst (streams (state_of (readFrames_step example_params
        ((state_of (closeStream example_conn 1))\<lparr>numBenignErrors := 11\<rparr>)
        (Arrived (PingFrame 3 1))))) = [3]
   \<and> map fst (streamInputs (state_of (readFrames_step example_params
        ((state_of (closeStream example_conn 1))\<lparr>numBenignErrors := 11\<rparr>)
        (Arrived (PingFrame 3 1))))) = [1, 3]"
  by (simp add: example_params_def example_conn_def newClientConn_def closeStream_def
      chan_close_def make_chan_def Let_def AList.delete_eq readFrames_step_def
      tooManyBenignErrors_def PROTOCOL_ERROR_def cleanup_def WriteFrame_def Stop_def
      State_Close_def)

text \<open>
  The same state is reached by the loop itself, from the well-formed connection with a
  benign error count of 10: an RST_STREAM with status REFUSED_STREAM for stream 1 and
  a PING reply that was never asked for.
\<close>

lemma benign_overflow_after_closeStream_run:
  "tables_ok (example_conn\<lparr>numBenignErrors := 10\<rparr>)
   \<and> why_stopped (readFrames example_params (example_conn\<lparr>numBenignErrors := 10\<rparr>)
        [Arrived (RstStreamFrame 3 1 RST_STREAM_REFUSED_STREAM), Arrived (PingFrame 3 3)]) = Panicked
   \<and> map fst (streamInputs (state_of (readFrames example_params
        (example_conn\<lparr>numBenignErrors := 10\<rparr>)
        [Arrived (RstStreamFrame 3 1 RST_STREAM_REFUSED_STREAM), Arrived (PingFrame 3 3)]))) = [1, 3]"
  by (simp add: tables_ok_def rst_codes example_params_def example_conn_def example_client_def
      newClientConn_def closeStream_def chan_close_def make_chan_def Let_def AList.delete_eq
      readFrames_def readFrames_step_def tooManyBenignErrors_def PROTOCOL_ERROR_def cleanup_def
      WriteFrame_def Stop_def State_Close_def validFrameVersion_def handlePing_def benign_def)

subsection \<open>Accepting a stream on the server\<close>

text \<open>
  A SYN_STREAM frame that passes every acceptance check of the server (no GOAWAY, the
  version check, an odd stream ID equal to \<^verbatim>\<open>nextClientStreamID + 2\<close> and at most
  \<open>MAX_STREAM_ID\<close>) makes the server create a stream from the frame, store it in
  \<^verbatim>\<open>streams\<close> under the frame's stream ID and launch its actor; no frame is
  written.
\<close>

lemma server_syn_stream_accepted:
  assumes "\<not> s_goaway conn"
    and "\<not> (fv \<noteq> s_version conn \<and> fv > V)"
    and "sid AND 1 \<noteq> 0"
    and "sid = s_nextClientStreamID conn + 2"
    and "sid \<le> MAX_STREAM_ID"
  shows "is_Continue (s_handleFrame V conn (SSynStreamFrame fv sid))
    \<and> map_of (s_streams (state_of (s_handleFrame V conn (SSynStreamFrame fv sid)))) =
        (map_of (s_streams conn))(sid \<mapsto> \<lparr>opened_by = SSynStreamFrame fv sid, started = True\<rparr>)
    \<and> s_written (state_of (s_handleFrame V conn (SSynStreamFrame fv sid))) = s_written conn"
  using assms
  by (auto simp: update_conv' newStream_def run_stream_def not_less)

text \<open>
  Claim C2 says that accepting a SYN_STREAM frame also sets the next remote stream ID to
  the frame's stream ID, so that after stream 1 the counter is 1. The server tests each
  frame against \<^verbatim>\<open>nextClientStreamID + 2\<close> and never assigns the counter. On the
  server connection whose counter is 1, the frame with stream ID 3 is accepted and the
  counter is still 1; stream ID 5 is then turned away and stream ID 3 is accepted a
  second time. On a connection whose counter is \<open>2^32 - 1\<close>, the frame with stream ID 1
  is accepted and the counter is not 1 afterwards. On the client, a SYN_STREAM frame
  that passes every check of \<^verbatim>\<open>handleSynStream\<close> creates no stream and leaves
  \<^verbatim>\<open>nextServerStreamID\<close> alone: only the wait group is counted up.
\<close>

theorem syn_stream_counter_never_advances:
  "s_handleFrame 3 example_server (SSynStreamFrame 3 3) =
     Continue (example_server\<lparr>s_streams :=
       [(3, \<lparr>opened_by = SSynStreamFrame 3 3, started = True\<rparr>)]\<rparr>)
   \<and> s_nextClientStreamID (state_of (s_handleFrame 3 example_server (SSynStreamFrame 3 3))) = 1
   \<and> s_readFrames 3 example_server
        [Some (SSynStreamFrame 3 3), Some (SSynStreamFrame 3 5), Some (SSynStreamFrame 3 3)] =
      Continue (example_server\<lparr>s_streams :=
        [(3, \<lparr>opened_by = SSynStreamFrame 3 3, started = True\<rparr>)],
        s_written := [SRstStreamFrame 3 5 RST_STREAM_PROTOCOL_ERROR]\<rparr>)
   \<and> map_of (s_streams (state_of (s_handleFrame 3
        (example_server\<lparr>s_nextClientStreamID := 0xFFFFFFFF\<rparr>) (SSynStreamFrame 3 1)))) 1 =
      Some \<lparr>opened_by = SSynStreamFrame 3 1, started = True\<rparr>
   \<and> s_nextClientStreamID (state_of (s_handleFrame 3
        (example_server\<lparr>s_nextClientStreamID := 0xFFFFFFFF\<rparr>) (SSynStreamFrame 3 1))) \<noteq> 1
   \<and> handleSynStream example_conn (SynStreamFrame 3 2 []) =
      Continue (example_conn\<lparr>done_wg := 1\<rparr>)
   \<and> map_of (streams (state_of (handleSynStream example_conn (SynStreamFrame 3 2 [])))) 2 = None
   \<and> nextServerStreamID (state_of (handleSynStream example_conn (SynStreamFrame 3 2 []))) = 0"
  by (simp add: example_server_def MAX_STREAM_ID_def newStream_def run_stream_def
      s_readFrames_def s_readFrames_step_def s_WriteFrame_def example_conn_def newClientConn_def)

subsection \<open>SYN_STREAM\<close>

text \<open>
  Claim C3, as stated: a SYN_STREAM frame of the wrong parity is answered with an
  RST_STREAM of status PROTOCOL_ERROR and leaves the benign error count unchanged. On
  the client this fails: for the odd stream ID 1 \<^verbatim>\<open>handleSynStream\<close> sends nothing and
  adds one to \<^verbatim>\<open>numBenignErrors\<close>.
\<close>

theorem wrong_parity_client_counterexample:
  "handleSynStream (newClientConn example_params) (SynStreamFrame 3 1 []) =
     Continue (benign (newClientConn example_params))
   \<and> dataOutput (state_of (handleSynStream (newClientConn example_params) (SynStreamFrame 3 1 []))) = []
   \<and> numBenignErrors (state_of (handleSynStream (newClientConn example_params) (SynStreamFrame 3 1 [])))
       = numBenignErrors (newClientConn example_params) + 1"
  by (simp add: newClientConn_def benign_def)

text \<open>
  Claim C3, amended. On the server, a SYN_STREAM frame with an even stream ID that gets
  past the GOAWAY and version checks is answered with an RST_STREAM of status
  PROTOCOL_ERROR for that stream ID, and nothing else changes: no stream is created
  (the server has no benign error count). On the client, \<^verbatim>\<open>handleSynStream\<close> answers a
  SYN_STREAM frame with an odd stream ID, when no GOAWAY was seen, by adding one to
  \<^verbatim>\<open>numBenignErrors\<close>; it sends nothing and creates no stream.
\<close>

theorem wrong_parity_syn_stream:
  "(\<not> s_goaway sconn \<and> \<not> (fv \<noteq> s_version sconn \<and> fv > V) \<and> sid AND 1 = 0 \<longrightarrow>
      s_handleFrame V sconn (SSynStreamFrame fv sid) =
        Continue (sconn\<lparr>s_written := s_written sconn @ [SRstStreamFrame V sid RST_STREAM_PROTOCOL_ERROR]\<rparr>))
   \<and> (\<not> goaway conn \<and> sid' AND 1 \<noteq> 0 \<longrightarrow>
      handleSynStream conn (SynStreamFrame v sid' hs) =
        Continue (conn\<lparr>numBenignErrors := numBenignErrors conn + 1\<rparr>))"
  by (auto simp: s_WriteFrame_def benign_def)

theorem wrong_parity_syn_stream_witness:
  "\<not> s_goaway example_server \<and> (2 :: uint32) AND 1 = 0
   \<and> s_written (state_of (s_handleFrame 3 example_server (SSynStreamFrame 3 2)))
       = [SRstStreamFrame 3 2 RST_STREAM_PROTOCOL_ERROR]
   \<and> s_streams (state_of (s_handleFrame 3 example_server (SSynStreamFrame 3 2))) = []
   \<and> \<not> goaway example_conn \<and> (5 :: uint32) AND 1 \<noteq> 0
   \<and> numBenignErrors (state_of (handleSynStream example_conn (SynStreamFrame 3 5 []))) = 1
   \<and> dataOutput (state_of (handleSynStream example_conn (SynStreamFrame 3 5 []))) = []"
proof -
  have a: "\<not> s_goaway example_server \<and> \<not> ((3::int) \<noteq> s_version example_server \<and> 3 > (3::int))
      \<and> (2 :: uint32) AND 1 = 0"
    by (simp add: example_server_def)
  have b: "\<not> goaway example_conn \<and> (5 :: uint32) AND 1 \<noteq> 0"
    by (simp add: example_conn_def newClientConn_def)
  have c: "s_written example_server = [] \<and> s_streams example_server = []"
    by (simp add: example_server_def)
  have d: "numBenignErrors example_conn = 0 \<and> dataOutput example_conn = []"
    by (simp add: example_conn_def newClientConn_def)
  from wrong_parity_syn_stream [of example_server 3 3 2 example_conn 5 3 "[]"] a b c d
  show ?thesis by simp
qed

text \<open>
  Claim C4, as stated: a SYN_STREAM frame whose stream ID exceeds \<open>MAX_STREAM_ID\<close> ends
  the ingress loop. On the server this fails: with \<^verbatim>\<open>nextClientStreamID\<close> at
  \<open>2^31 - 1\<close> the frame with stream ID \<open>2^31 + 1\<close> reaches the size check, is answered
  with an RST_STREAM, and the loop goes on to the next frame.
\<close>

theorem oversized_syn_stream_counterexample:
  "s_handleFrame 3 (example_server\<lparr>s_nextClientStreamID := 0x7FFFFFFF\<rparr>)
       (SSynStreamFrame 3 0x80000001) =
     Continue (example_server\<lparr>s_nextClientStreamID := 0x7FFFFFFF,
       s_written := [SRstStreamFrame 3 0x80000001 RST_STREAM_PROTOCOL_ERROR]\<rparr>)
   \<and> MAX_STREAM_ID < 0x80000001
   \<and> s_readFrames 3 (example_server\<lparr>s_nextClientStreamID := 0x7FFFFFFF\<rparr>)
       [Some (SSynStreamFrame 3 0x80000001), Some (SSynStreamFrame 3 0x80000001)] =
     Continue (example_server\<lparr>s_nextClientStreamID := 0x7FFFFFFF,
       s_written := [SRstStreamFrame 3 0x80000001 RST_STREAM_PROTOCOL_ERROR,
                     SRstStreamFrame 3 0x80000001 RST_STREAM_PROTOCOL_ERROR]\<rparr>)"
  by (simp add: example_server_def s_readFrames_def MAX_STREAM_ID_def s_WriteFrame_def s_readFrames_step_def)

text \<open>
  Claim C4, amended. For a SYN_STREAM frame that passes the checks before the size check
  (no GOAWAY, the right parity, the expected next ID; on the server also the version
  check): if its stream ID exceeds \<open>MAX_STREAM_ID\<close>, the client's \<^verbatim>\<open>handleSynStream\<close>
  is \<^verbatim>\<open>PROTOCOL_ERROR\<close> on that stream (the RST_STREAM is queued and the task ends,
  by \<^verbatim>\<open>Goexit\<close> with both tables emptied when the tables are well formed), while the
  server queues an RST_STREAM of status PROTOCOL_ERROR, creates no stream and goes on
  with the next frame; if its stream ID is at most \<open>MAX_STREAM_ID\<close>, the frame is not
  rejected: the client goes on to \<^verbatim>\<open>conn.done.Add(1)\<close> and the server creates the
  stream.
\<close>

theorem oversized_syn_stream:
  "(\<not> goaway conn \<and> sid AND 1 = 0 \<and> sid = nextServerStreamID conn + 2 \<longrightarrow>
      (sid > MAX_STREAM_ID \<longrightarrow>
         handleSynStream conn (SynStreamFrame v sid hs) = PROTOCOL_ERROR conn sid
         \<and> \<not> is_Continue (handleSynStream conn (SynStreamFrame v sid hs))
         \<and> dataOutput (state_of (handleSynStream conn (SynStreamFrame v sid hs))) =
             dataOutput conn @ [RstStreamFrame (word_of_int (version conn)) sid RST_STREAM_PROTOCOL_ERROR]
         \<and> (tables_ok conn \<longrightarrow>
              why_stopped (handleSynStream conn (SynStreamFrame v sid hs)) = Goexit
              \<and> streams (state_of (handleSynStream conn (SynStreamFrame v sid hs))) = []
              \<and> streamInputs (state_of (handleSynStream conn (SynStreamFrame v sid hs))) = []))
      \<and> (sid \<le> MAX_STREAM_ID \<longrightarrow>
         handleSynStream conn (SynStreamFrame v sid hs) = Continue (conn\<lparr>done_wg := done_wg conn + 1\<rparr>)))
   \<and> (\<not> s_goaway sconn \<and> \<not> (fv \<noteq> s_version sconn \<and> fv > V) \<and> sid' AND 1 \<noteq> 0
        \<and> sid' = s_nextClientStreamID sconn + 2 \<longrightarrow>
      (sid' > MAX_STREAM_ID \<longrightarrow>
         s_handleFrame V sconn (SSynStreamFrame fv sid') =
           Continue (sconn\<lparr>s_written := s_written sconn @ [SRstStreamFrame V sid' RST_STREAM_PROTOCOL_ERROR]\<rparr>))
      \<and> (sid' \<le> MAX_STREAM_ID \<longrightarrow>
         s_handleFrame V sconn (SSynStreamFrame fv sid') =
           Continue (sconn\<lparr>s_streams := AList.update sid'
             \<lparr>opened_by = SSynStreamFrame fv sid', started = True\<rparr> (s_streams sconn)\<rparr>)))"
proof -
  have client:
    "\<not> goaway conn \<and> sid AND 1 = 0 \<and> sid = nextServerStreamID conn + 2 \<longrightarrow>
      (sid > MAX_STREAM_ID \<longrightarrow>
         handleSynStream conn (SynStreamFrame v sid hs) = PROTOCOL_ERROR conn sid
         \<and> \<not> is_Continue (handleSynStream conn (SynStreamFrame v sid hs))
         \<and> dataOutput (state_of (handleSynStream conn (SynStreamFrame v sid hs))) =
             dataOutput conn @ [RstStreamFrame (word_of_int (version conn)) sid RST_STREAM_PROTOCOL_ERROR]
         \<and> (tables_ok conn \<longrightarrow>
              why_stopped (handleSynStream conn (SynStreamFrame v sid hs)) = Goexit
              \<and> streams (state_of (handleSynStream conn (SynStreamFrame v sid hs))) = []
              \<and> streamInputs (state_of (handleSynStream conn (SynStreamFrame v sid hs))) = []))
      \<and> (sid \<le> MAX_STREAM_ID \<longrightarrow>
         handleSynStream conn (SynStreamFrame v sid hs) = Continue (conn\<lparr>done_wg := done_wg conn + 1\<rparr>))"
  proof (rule impI, rule conjI; rule impI)
    assume H: "\<not> goaway conn \<and> sid AND 1 = 0 \<and> sid = nextServerStreamID conn + 2"
      and big: "sid > MAX_STREAM_ID"
    from H have h1: "\<not> goaway conn" and h2: "sid AND 1 = 0"
      and h3: "nextServerStreamID conn + 2 = sid" by auto
    have eq: "handleSynStream conn (SynStreamFrame v sid hs) = PROTOCOL_ERROR conn sid"
      using PROTOCOL_ERROR_stops [of conn sid]
      by (cases "PROTOCOL_ERROR conn sid") (simp_all add: h1 h2 h3 big)
    show "handleSynStream conn (SynStreamFrame v sid hs) = PROTOCOL_ERROR conn sid
         \<and> \<not> is_Continue (handleSynStream conn (SynStreamFrame v sid hs))
         \<and> dataOutput (state_of (handleSynStream conn (SynStreamFrame v sid hs))) =
             dataOutput conn @ [RstStreamFrame (word_of_int (version conn)) sid RST_STREAM_PROTOCOL_ERROR]
         \<and> (tables_ok conn \<longrightarrow>
              why_stopped (handleSynStream conn (SynStreamFrame v sid hs)) = Goexit
              \<and> streams (state_of (handleSynStream conn (SynStreamFrame v sid hs))) = []
              \<and> streamInputs (state_of (handleSynStream conn (SynStreamFrame v sid hs))) = [])"
      unfolding eq
      by (simp add: PROTOCOL_ERROR_stops PROTOCOL_ERROR_dataOutput PROTOCOL_ERROR_ok)
  next
    assume H: "\<not> goaway conn \<and> sid AND 1 = 0 \<and> sid = nextServerStreamID conn + 2"
      and small: "sid \<le> MAX_STREAM_ID"
    show "handleSynStream conn (SynStreamFrame v sid hs) = Continue (conn\<lparr>done_wg := done_wg conn + 1\<rparr>)"
    proof -
      from H have h1: "\<not> goaway conn" and h2: "sid AND 1 = 0"
        and h3: "nextServerStreamID conn + 2 = sid" by auto
      from small have h4: "\<not> sid > MAX_STREAM_ID" by (simp add: not_less)
      show ?thesis by (simp add: h1 h2 h3 h4)
    qed
  qed
  have server: "\<not> s_goaway sconn \<and> \<not> (fv \<noteq> s_version sconn \<and> fv > V) \<and> sid' AND 1 \<noteq> 0
        \<and> sid' = s_nextClientStreamID sconn + 2 \<longrightarrow>
      (sid' > MAX_STREAM_ID \<longrightarrow>
         s_handleFrame V sconn (SSynStreamFrame fv sid') =
           Continue (sconn\<lparr>s_written := s_written sconn @ [SRstStreamFrame V sid' RST_STREAM_PROTOCOL_ERROR]\<rparr>))
      \<and> (sid' \<le> MAX_STREAM_ID \<longrightarrow>
         s_handleFrame V sconn (SSynStreamFrame fv sid') =
           Continue (sconn\<lparr>s_streams := AList.update sid'
             \<lparr>opened_by = SSynStreamFrame fv sid', started = True\<rparr> (s_streams sconn)\<rparr>))"
    by (auto simp: s_WriteFrame_def newStream_def run_stream_def not_less)
  show ?thesis
    by (rule conjI [OF client server])
qed

theorem oversized_syn_stream_witness:
  "\<not> goaway (example_conn\<lparr>nextServerStreamID := 0x7FFFFFFE\<rparr>)
   \<and> (0x80000000 :: uint32) AND 1 = 0
   \<and> (0x80000000 :: uint32) = nextServerStreamID (example_conn\<lparr>nextServerStreamID := 0x7FFFFFFE\<rparr>) + 2
   \<and> (0x80000000 :: uint32) > MAX_STREAM_ID
   \<and> tables_ok (example_conn\<lparr>nextServerStreamID := 0x7FFFFFFE\<rparr>)
   \<and> why_stopped (handleSynStream (example_conn\<lparr>nextServerStreamID := 0x7FFFFFFE\<rparr>)
        (SynStreamFrame 3 0x80000000 [])) = Goexit
   \<and> \<not> s_goaway (example_server\<lparr>s_nextClientStreamID := 0x7FFFFFFD\<rparr>)
   \<and> (0x7FFFFFFF :: uint32) AND 1 \<noteq> 0
   \<and> (0x7FFFFFFF :: uint32) = s_nextClientStreamID (example_server\<lparr>s_nextClientStreamID := 0x7FFFFFFD\<rparr>) + 2
   \<and> (0x7FFFFFFF :: uint32) \<le> MAX_STREAM_ID
   \<and> is_Continue (s_handleFrame 3 (example_server\<lparr>s_nextClientStreamID := 0x7FFFFFFD\<rparr>) (SSynStreamFrame 3 0x7FFFFFFF))"
proof -
  let ?c = "example_conn\<lparr>nextServerStreamID := 0x7FFFFFFE\<rparr>"
  let ?s = "example_server\<lparr>s_nextClientStreamID := 0x7FFFFFFD\<rparr>"
  have a: "\<not> goaway ?c \<and> (0x80000000 :: uint32) AND 1 = 0
      \<and> (0x80000000 :: uint32) = nextServerStreamID ?c + 2"
    by (simp add: example_conn_def newClientConn_def)
  have big: "(0x80000000 :: uint32) > MAX_STREAM_ID"
    by (simp add: MAX_STREAM_ID_def)
  have t: "tables_ok ?c"
    by (simp add: tables_ok_def example_conn_def newClientConn_def make_chan_def)
  have b: "\<not> s_goaway ?s \<and> \<not> ((3::int) \<noteq> s_version ?s \<and> 3 > (3::int)) \<and> (0x7FFFFFFF :: uint32) AND 1 \<noteq> 0
      \<and> (0x7FFFFFFF :: uint32) = s_nextClientStreamID ?s + 2"
    by (simp add: example_server_def)
  have small: "(0x7FFFFFFF :: uint32) \<le> MAX_STREAM_ID"
    by (simp add: MAX_STREAM_ID_def)
  note th = oversized_syn_stream [of ?c "0x80000000" 3 "[]" ?s 3 3 "0x7FFFFFFF"]
  from th a big t have 1: "why_stopped (handleSynStream ?c (SynStreamFrame 3 0x80000000 [])) = Goexit"
    by blast
  from th b small have "s_handleFrame 3 ?s (SSynStreamFrame 3 0x7FFFFFFF) =
           Continue (?s\<lparr>s_streams := AList.update 0x7FFFFFFF
             \<lparr>opened_by = SSynStreamFrame 3 0x7FFFFFFF, started = True\<rparr> (s_streams ?s)\<rparr>)"
    by blast
  then have 2: "is_Continue (s_handleFrame 3 ?s (SSynStreamFrame 3 0x7FFFFFFF))"
    by (simp only: outcome.disc)
  from a big t b small 1 2 show ?thesis by blast
qed

subsection \<open>PING\<close>

text \<open>
  Claim C5. A PING frame that reaches the \<^verbatim>\<open>switch\<close> of the client is handled by
  the parity of its ping ID; odd is the client's own parity. If the ID is odd and
  registered in \<^verbatim>\<open>pings\<close> with a channel that is still open, \<^verbatim>\<open>true\<close> is sent on
  that channel once, the channel is closed, the entry is removed from \<^verbatim>\<open>pings\<close>, and
  nothing else changes; on a ping table as \<^verbatim>\<open>Ping\<close> builds it the channel then holds
  the single value \<^verbatim>\<open>true\<close>. If the ID is odd and not registered,
  \<^verbatim>\<open>numBenignErrors\<close> goes up by one and nothing else changes. If the ID is even, the
  frame itself is appended to the outbound queue and nothing else changes.
\<close>

theorem ping_handling:
  "(PingID AND 1 \<noteq> 0 \<and> map_of (pings conn) PingID = Some c \<and> \<not> chan_closed (bool_chans conn c) \<longrightarrow>
      handleFrame P conn (PingFrame v PingID) =
        Continue (conn\<lparr>bool_chans := (bool_chans conn)
                         (c := (bool_chans conn c)\<lparr>sent := sent (bool_chans conn c) @ [True],
                                                    chan_closed := True\<rparr>),
                       pings := AList.delete PingID (pings conn)\<rparr>)
      \<and> map_of (pings (state_of (handleFrame P conn (PingFrame v PingID)))) PingID = None)
   \<and> (PingID AND 1 \<noteq> 0 \<and> map_of (pings conn) PingID = Some c \<and> pings_ok conn \<longrightarrow>
      bool_chans (state_of (handleFrame P conn (PingFrame v PingID))) c =
        \<lparr>sent = [True], chan_closed = True\<rparr>)
   \<and> (PingID AND 1 \<noteq> 0 \<and> map_of (pings conn) PingID = None \<longrightarrow>
      handleFrame P conn (PingFrame v PingID) =
        Continue (conn\<lparr>numBenignErrors := numBenignErrors conn + 1\<rparr>))
   \<and> (PingID AND 1 = 0 \<longrightarrow>
      handleFrame P conn (PingFrame v PingID) =
        Continue (conn\<lparr>dataOutput := dataOutput conn @ [PingFrame v PingID]\<rparr>))"
proof -
  have reply: "PingID AND 1 \<noteq> 0 \<and> map_of (pings conn) PingID = Some c
      \<and> \<not> chan_closed (bool_chans conn c) \<longrightarrow>
      handleFrame P conn (PingFrame v PingID) =
        Continue (conn\<lparr>bool_chans := (bool_chans conn)
                         (c := (bool_chans conn c)\<lparr>sent := sent (bool_chans conn c) @ [True],
                                                    chan_closed := True\<rparr>),
                       pings := AList.delete PingID (pings conn)\<rparr>)
      \<and> map_of (pings (state_of (handleFrame P conn (PingFrame v PingID)))) PingID = None"
    by (auto simp: handlePing_def chan_send_def chan_close_def delete_conv')
  have once: "PingID AND 1 \<noteq> 0 \<and> map_of (pings conn) PingID = Some c \<and> pings_ok conn \<longrightarrow>
      bool_chans (state_of (handleFrame P conn (PingFrame v PingID))) c =
        \<lparr>sent = [True], chan_closed = True\<rparr>"
  proof (rule impI)
    assume H: "PingID AND 1 \<noteq> 0 \<and> map_of (pings conn) PingID = Some c \<and> pings_ok conn"
    then have fresh: "bool_chans conn c = make_chan"
      by (auto dest: registered_notifier_is_fresh)
    then have "\<not> chan_closed (bool_chans conn c)" by (simp add: make_chan_def)
    with H reply have "handleFrame P conn (PingFrame v PingID) =
        Continue (conn\<lparr>bool_chans := (bool_chans conn)
                         (c := (bool_chans conn c)\<lparr>sent := sent (bool_chans conn c) @ [True],
                                                    chan_closed := True\<rparr>),
                       pings := AList.delete PingID (pings conn)\<rparr>)"
      by blast
    then show "bool_chans (state_of (handleFrame P conn (PingFrame v PingID))) c =
        \<lparr>sent = [True], chan_closed = True\<rparr>"
      by (simp add: fresh make_chan_def)
  qed
  have unknown: "PingID AND 1 \<noteq> 0 \<and> map_of (pings conn) PingID = None \<longrightarrow>
      handleFrame P conn (PingFrame v PingID) =
        Continue (conn\<lparr>numBenignErrors := numBenignErrors conn + 1\<rparr>)"
    by (simp add: handlePing_def benign_def)
  have echo: "PingID AND 1 = 0 \<longrightarrow>
      handleFrame P conn (PingFrame v PingID) =
        Continue (conn\<lparr>dataOutput := dataOutput conn @ [PingFrame v PingID]\<rparr>)"
    by (simp add: handlePing_def WriteFrame_def)
  from reply once unknown echo show ?thesis by (intro conjI)
qed

theorem ping_handling_witness:
  "(1 :: uint32) AND 1 \<noteq> 0
   \<and> map_of (pings (fst (Ping example_conn))) 1 = Some 2
   \<and> \<not> chan_closed (bool_chans (fst (Ping example_conn)) 2)
   \<and> pings_ok (fst (Ping example_conn))
   \<and> bool_chans (state_of (handleFrame example_params (fst (Ping example_conn)) (PingFrame 3 1))) 2
        = \<lparr>sent = [True], chan_closed = True\<rparr>
   \<and> pings (state_of (handleFrame example_params (fst (Ping example_conn)) (PingFrame 3 1))) = []
   \<and> (3 :: uint32) AND 1 \<noteq> 0
   \<and> map_of (pings example_conn) 3 = None
   \<and> numBenignErrors (state_of (handleFrame example_params example_conn (PingFrame 3 3))) = 1
   \<and> (2 :: uint32) AND 1 = 0
   \<and> dataOutput (state_of (handleFrame example_params example_conn (PingFrame 3 2))) = [PingFrame 3 2]"
proof -
  let ?c = "fst (Ping example_conn)"
  have a: "(1 :: uint32) AND 1 \<noteq> 0 \<and> map_of (pings ?c) 1 = Some 2 \<and> \<not> chan_closed (bool_chans ?c 2)"
    by (simp add: Ping_def Let_def example_conn_def newClientConn_def make_chan_def)
  have ok: "pings_ok ?c"
    by (rule pings_ok_Ping) (simp add: pings_ok_def example_conn_def newClientConn_def)
  have a': "sent (bool_chans ?c 2) = [] \<and> AList.delete 1 (pings ?c) = []"
    by (simp add: Ping_def Let_def example_conn_def newClientConn_def make_chan_def)
  have b: "(3 :: uint32) AND 1 \<noteq> 0 \<and> map_of (pings example_conn) 3 = None"
    by (simp add: example_conn_def newClientConn_def)
  have b': "numBenignErrors example_conn = 0 \<and> dataOutput example_conn = []"
    by (simp add: example_conn_def newClientConn_def)
  have c: "(2 :: uint32) AND 1 = 0" by simp
  note t1 = ping_handling [of 1 ?c 2 example_params 3]
  note t2 = ping_handling [of 3 example_conn 0 example_params 3]
  note t3 = ping_handling [of 2 example_conn 0 example_params 3]
  from t1 a have 1: "handleFrame example_params ?c (PingFrame 3 1) =
        Continue (?c\<lparr>bool_chans := (bool_chans ?c)
                         (2 := (bool_chans ?c 2)\<lparr>sent := sent (bool_chans ?c 2) @ [True],
                                                    chan_closed := True\<rparr>),
                       pings := AList.delete 1 (pings ?c)\<rparr>)"
    by blast
  from t2 b have 2: "handleFrame example_params example_conn (PingFrame 3 3) =
        Continue (example_conn\<lparr>numBenignErrors := numBenignErrors example_conn + 1\<rparr>)"
    by blast
  from t3 c have 3: "handleFrame example_params example_conn (PingFrame 3 2) =
        Continue (example_conn\<lparr>dataOutput := dataOutput example_conn @ [PingFrame 3 2]\<rparr>)"
    by blast
  from t1 a ok have r0: "bool_chans (state_of (handleFrame example_params ?c (PingFrame 3 1))) 2
        = \<lparr>sent = [True], chan_closed = True\<rparr>"
    by blast
  have r1: "pings (state_of (handleFrame example_params ?c (PingFrame 3 1))) = []"
    unfolding 1 using a' by simp
  have r2: "numBenignErrors (state_of (handleFrame example_params example_conn (PingFrame 3 3))) = 1"
    unfolding 2 using b' by simp
  have r3: "dataOutput (state_of (handleFrame example_params example_conn (PingFrame 3 2))) = [PingFrame 3 2]"
    unfolding 3 using b' by simp
  from a ok b c r0 r1 r2 r3 show ?thesis by blast
qed

subsection \<open>Closing one stream\<close>

text \<open>
  Claim C6, as stated: on a client, an RST_STREAM with status CANCEL closes the stream
  when its ID is even and counts a benign error when it is odd. The code does the
  opposite. With stream 2 registered, CANCEL for stream 2 leaves the tables as they are
  and counts a benign error; with stream 1 registered, CANCEL for stream 1 removes it
  from \<^verbatim>\<open>streams\<close> and counts nothing.
\<close>

theorem cancel_parity_counterexample:
  "handleRstStream (example_conn\<lparr>streams := [(2, 0)], streamInputs := [(2, 0)]\<rparr>)
       (RstStreamFrame 3 2 RST_STREAM_CANCEL) =
     Continue (example_conn\<lparr>streams := [(2, 0)], streamInputs := [(2, 0)], numBenignErrors := 1\<rparr>)
   \<and> map_of (streams (state_of (handleRstStream example_conn (RstStreamFrame 3 1 RST_STREAM_CANCEL)))) 1 = None
   \<and> numBenignErrors (state_of (handleRstStream example_conn (RstStreamFrame 3 1 RST_STREAM_CANCEL))) = 0"
  by (simp add: rst_codes example_conn_def newClientConn_def benign_def closeStream_def
      chan_close_def make_chan_def Let_def)

text \<open>
  Claim C6, amended. For a received RST_STREAM frame with status CANCEL: if the stream ID
  is even, \<^verbatim>\<open>numBenignErrors\<close> goes up by one and nothing else changes, the tables
  included; if it is odd, the frame is handled by \<^verbatim>\<open>closeStream\<close>, which for a
  registered stream with an open inbox stops the stream, closes its state and its inbox
  and removes it from \<^verbatim>\<open>streams\<close>, leaving \<^verbatim>\<open>numBenignErrors\<close> as it was.
\<close>

theorem cancel_handling:
  "(sid AND 1 = 0 \<longrightarrow>
      handleRstStream conn (RstStreamFrame v sid RST_STREAM_CANCEL) =
        Continue (conn\<lparr>numBenignErrors := numBenignErrors conn + 1\<rparr>))
   \<and> (sid AND 1 \<noteq> 0 \<longrightarrow>
      handleRstStream conn (RstStreamFrame v sid RST_STREAM_CANCEL) = closeStream conn sid)
   \<and> (sid AND 1 \<noteq> 0 \<and> map_of (streams conn) sid = Some s
        \<and> map_of (streamInputs conn) sid = Some c \<and> \<not> chan_closed (frame_chans conn c) \<longrightarrow>
      is_Continue (handleRstStream conn (RstStreamFrame v sid RST_STREAM_CANCEL))
      \<and> stopped (stream_objs (state_of (handleRstStream conn (RstStreamFrame v sid RST_STREAM_CANCEL))) s)
      \<and> state_closed (stream_objs (state_of (handleRstStream conn (RstStreamFrame v sid RST_STREAM_CANCEL))) s)
      \<and> chan_closed (frame_chans (state_of (handleRstStream conn (RstStreamFrame v sid RST_STREAM_CANCEL))) c)
      \<and> map_of (streams (state_of (handleRstStream conn (RstStreamFrame v sid RST_STREAM_CANCEL)))) sid = None
      \<and> numBenignErrors (state_of (handleRstStream conn (RstStreamFrame v sid RST_STREAM_CANCEL)))
          = numBenignErrors conn)"
proof -
  have even: "sid AND 1 = 0 \<longrightarrow>
      handleRstStream conn (RstStreamFrame v sid RST_STREAM_CANCEL) =
        Continue (conn\<lparr>numBenignErrors := numBenignErrors conn + 1\<rparr>)"
    by (simp add: rst_codes benign_def)
  have odd: "sid AND 1 \<noteq> 0 \<longrightarrow>
      handleRstStream conn (RstStreamFrame v sid RST_STREAM_CANCEL) = closeStream conn sid"
    by (simp add: rst_codes)
  have closes: "sid AND 1 \<noteq> 0 \<and> map_of (streams conn) sid = Some s
        \<and> map_of (streamInputs conn) sid = Some c \<and> \<not> chan_closed (frame_chans conn c) \<longrightarrow>
      is_Continue (handleRstStream conn (RstStreamFrame v sid RST_STREAM_CANCEL))
      \<and> stopped (stream_objs (state_of (handleRstStream conn (RstStreamFrame v sid RST_STREAM_CANCEL))) s)
      \<and> state_closed (stream_objs (state_of (handleRstStream conn (RstStreamFrame v sid RST_STREAM_CANCEL))) s)
      \<and> chan_closed (frame_chans (state_of (handleRstStream conn (RstStreamFrame v sid RST_STREAM_CANCEL))) c)
      \<and> map_of (streams (state_of (handleRstStream conn (RstStreamFrame v sid RST_STREAM_CANCEL)))) sid = None
      \<and> numBenignErrors (state_of (handleRstStream conn (RstStreamFrame v sid RST_STREAM_CANCEL)))
          = numBenignErrors conn"
  proof (rule impI)
    assume H: "sid AND 1 \<noteq> 0 \<and> map_of (streams conn) sid = Some s
        \<and> map_of (streamInputs conn) sid = Some c \<and> \<not> chan_closed (frame_chans conn c)"
    then have nz: "sid \<noteq> 0" by auto
    have eq: "handleRstStream conn (RstStreamFrame v sid RST_STREAM_CANCEL) = closeStream conn sid"
      using H odd by blast
    show "is_Continue (handleRstStream conn (RstStreamFrame v sid RST_STREAM_CANCEL))
      \<and> stopped (stream_objs (state_of (handleRstStream conn (RstStreamFrame v sid RST_STREAM_CANCEL))) s)
      \<and> state_closed (stream_objs (state_of (handleRstStream conn (RstStreamFrame v sid RST_STREAM_CANCEL))) s)
      \<and> chan_closed (frame_chans (state_of (handleRstStream conn (RstStreamFrame v sid RST_STREAM_CANCEL))) c)
      \<and> map_of (streams (state_of (handleRstStream conn (RstStreamFrame v sid RST_STREAM_CANCEL)))) sid = None
      \<and> numBenignErrors (state_of (handleRstStream conn (RstStreamFrame v sid RST_STREAM_CANCEL)))
          = numBenignErrors conn"
      unfolding eq using H nz
      by (simp add: closeStream_ok Stop_def State_Close_def delete_conv')
  qed
  from even odd closes show ?thesis by (intro conjI)
qed

theorem cancel_handling_witness:
  "(2 :: uint32) AND 1 = 0
   \<and> numBenignErrors (state_of (handleRstStream example_conn (RstStreamFrame 3 2 RST_STREAM_CANCEL))) = 1
   \<and> streams (state_of (handleRstStream example_conn (RstStreamFrame 3 2 RST_STREAM_CANCEL))) = [(1, 0), (3, 1)]
   \<and> (3 :: uint32) AND 1 \<noteq> 0
   \<and> map_of (streams example_conn) 3 = Some 1
   \<and> map_of (streamInputs example_conn) 3 = Some 1
   \<and> \<not> chan_closed (frame_chans example_conn 1)
   \<and> stopped (stream_objs (state_of (handleRstStream example_conn (RstStreamFrame 3 3 RST_STREAM_CANCEL))) 1)
   \<and> chan_closed (frame_chans (state_of (handleRstStream example_conn (RstStreamFrame 3 3 RST_STREAM_CANCEL))) 1)
   \<and> map_of (streams (state_of (handleRstStream example_conn (RstStreamFrame 3 3 RST_STREAM_CANCEL)))) 3 = None"
proof -
  have a: "(2 :: uint32) AND 1 = 0" by simp
  have a': "numBenignErrors example_conn = 0 \<and> streams example_conn = [(1, 0), (3, 1)]"
    by (simp add: example_conn_def newClientConn_def)
  have b: "(3 :: uint32) AND 1 \<noteq> 0 \<and> map_of (streams example_conn) 3 = Some 1
      \<and> map_of (streamInputs example_conn) 3 = Some 1 \<and> \<not> chan_closed (frame_chans example_conn 1)"
    by (simp add: example_conn_def newClientConn_def make_chan_def)
  note t1 = cancel_handling [of 2 example_conn 3 0 0]
  note t2 = cancel_handling [of 3 example_conn 3 1 1]
  from t1 a have 1: "handleRstStream example_conn (RstStreamFrame 3 2 RST_STREAM_CANCEL) =
        Continue (example_conn\<lparr>numBenignErrors := numBenignErrors example_conn + 1\<rparr>)"
    by blast
  have r1: "numBenignErrors (state_of (handleRstStream example_conn (RstStreamFrame 3 2 RST_STREAM_CANCEL))) = 1
      \<and> streams (state_of (handleRstStream example_conn (RstStreamFrame 3 2 RST_STREAM_CANCEL))) = [(1, 0), (3, 1)]"
    unfolding 1 using a' by simp
  from t2 b have r2: "stopped (stream_objs (state_of (handleRstStream example_conn (RstStreamFrame 3 3 RST_STREAM_CANCEL))) 1)
      \<and> chan_closed (frame_chans (state_of (handleRstStream example_conn (RstStreamFrame 3 3 RST_STREAM_CANCEL))) 1)
      \<and> map_of (streams (state_of (handleRstStream example_conn (RstStreamFrame 3 3 RST_STREAM_CANCEL)))) 3 = None"
    by blast
  from a b r1 r2 show ?thesis by blast
qed

text \<open>
  Claim C7 says that \<^verbatim>\<open>streams\<close> and \<^verbatim>\<open>streamInputs\<close> have the same keys after every
  frame, and that closing one stream removes its entry from both. On the connection
  with streams 1 and 3 open, an RST_STREAM with status REFUSED_STREAM for stream 1 is
  handled by \<^verbatim>\<open>closeStream(1)\<close>: afterwards \<^verbatim>\<open>streams\<close> has the key 3 only, while
  \<^verbatim>\<open>streamInputs\<close> still has the keys 1 and 3, the inbox of stream 1 being closed.
  \<^verbatim>\<open>cleanup\<close>, which relies on the two tables agreeing, then panics.
\<close>

theorem closeStream_keeps_inbox_entry:
  "handleFrame example_params example_conn (RstStreamFrame 3 1 RST_STREAM_REFUSED_STREAM)
     = closeStream example_conn 1
   \<and> is_Continue (closeStream example_conn 1)
   \<and> map fst (streams example_conn) = [1, 3]
   \<and> map fst (streamInputs example_conn) = [1, 3]
   \<and> map fst (streams (state_of (closeStream example_conn 1))) = [3]
   \<and> map fst (streamInputs (state_of (closeStream example_conn 1))) = [1, 3]
   \<and> chan_closed (frame_chans (state_of (closeStream example_conn 1)) 0)
   \<and> why_stopped (cleanup (state_of (closeStream example_conn 1))) = Panicked"
  by (simp add: rst_codes example_params_def example_conn_def newClientConn_def closeStream_def
      chan_close_def make_chan_def Let_def cleanup_def AList.delete_eq)

text \<open>
  The same on every well-formed connection: \<^verbatim>\<open>closeStream\<close> of a registered stream
  takes the key out of \<^verbatim>\<open>streams\<close> and leaves all keys of \<^verbatim>\<open>streamInputs\<close>.
\<close>

lemma closeStream_breaks_I1:
  assumes "tables_ok conn" and "sid \<noteq> 0" and "sid \<in> fst ` set (streams conn)"
  shows "is_Continue (closeStream conn sid)
    \<and> fst ` set (streams (state_of (closeStream conn sid))) = fst ` set (streams conn) - {sid}
    \<and> fst ` set (streamInputs (state_of (closeStream conn sid))) = fst ` set (streams conn)"
proof -
  from assms obtain s where s: "map_of (streams conn) sid = Some s"
    by (metis domD dom_map_of_conv_image_fst)
  from assms have "sid \<in> fst ` set (streamInputs conn)" by (simp add: tables_ok_def)
  then obtain c where c: "map_of (streamInputs conn) sid = Some c"
    by (metis domD dom_map_of_conv_image_fst)
  then have "(sid, c) \<in> set (streamInputs conn)" by (rule map_of_SomeD)
  with assms have op: "\<not> chan_closed (frame_chans conn c)"
    by (auto simp: tables_ok_def list_all_iff)
  have keys: "fst ` set (AList.delete sid (streams conn)) = fst ` set (streams conn) - {sid}"
    by (auto simp: AList.delete_eq image_iff)
  show ?thesis
    using assms keys by (simp add: closeStream_ok [OF assms(2) s c op] tables_ok_def)
qed

subsection \<open>WINDOW_UPDATE and DATA\<close>

text \<open>
  What \<^verbatim>\<open>handleWindowUpdateFrame\<close> does for a stream with an open inbox. For a
  WINDOW_UPDATE frame that passes the parity check (an odd stream ID) and the stream
  check: if the delta is 0 or exceeds \<open>MAX_DELTA_WINDOW_SIZE\<close>, the handler is
  \<^verbatim>\<open>PROTOCOL_ERROR\<close> on that stream (the RST_STREAM for it is queued and the task
  ends) and no inbox receives anything; if \<open>1 \<le> delta \<le> MAX_DELTA_WINDOW_SIZE\<close>, the
  frame is appended to the open inbox registered for its stream, and nothing else
  changes.
\<close>

lemma window_update_handling:
  "(sid AND 1 \<noteq> 0 \<and> \<not> (sid \<noteq> nextClientStreamID conn + 2 \<and> sid \<noteq> 1 \<and> nextClientStreamID conn \<noteq> 0)
      \<and> (delta = 0 \<or> delta > MAX_DELTA_WINDOW_SIZE) \<longrightarrow>
      handleWindowUpdateFrame conn (WindowUpdateFrame v sid delta) = PROTOCOL_ERROR conn sid
      \<and> \<not> is_Continue (handleWindowUpdateFrame conn (WindowUpdateFrame v sid delta))
      \<and> dataOutput (state_of (handleWindowUpdateFrame conn (WindowUpdateFrame v sid delta))) =
          dataOutput conn @ [RstStreamFrame (word_of_int (version conn)) sid RST_STREAM_PROTOCOL_ERROR]
      \<and> (\<forall>r. sent (frame_chans (state_of (handleWindowUpdateFrame conn (WindowUpdateFrame v sid delta))) r)
            = sent (frame_chans conn r)))
   \<and> (sid AND 1 \<noteq> 0 \<and> \<not> (sid \<noteq> nextClientStreamID conn + 2 \<and> sid \<noteq> 1 \<and> nextClientStreamID conn \<noteq> 0)
      \<and> 1 \<le> delta \<and> delta \<le> MAX_DELTA_WINDOW_SIZE
      \<and> map_of (streamInputs conn) sid = Some c \<and> \<not> chan_closed (frame_chans conn c) \<longrightarrow>
      handleWindowUpdateFrame conn (WindowUpdateFrame v sid delta) =
        Continue (conn\<lparr>frame_chans := (frame_chans conn)
          (c := (frame_chans conn c)\<lparr>sent := sent (frame_chans conn c) @ [WindowUpdateFrame v sid delta]\<rparr>)\<rparr>))"
proof -
  have bad: "sid AND 1 \<noteq> 0 \<and> \<not> (sid \<noteq> nextClientStreamID conn + 2 \<and> sid \<noteq> 1 \<and> nextClientStreamID conn \<noteq> 0)
      \<and> (delta = 0 \<or> delta > MAX_DELTA_WINDOW_SIZE) \<longrightarrow>
      handleWindowUpdateFrame conn (WindowUpdateFrame v sid delta) = PROTOCOL_ERROR conn sid"
    by (auto simp: word_less_1)
  have good: "sid AND 1 \<noteq> 0 \<and> \<not> (sid \<noteq> nextClientStreamID conn + 2 \<and> sid \<noteq> 1 \<and> nextClientStreamID conn \<noteq> 0)
      \<and> 1 \<le> delta \<and> delta \<le> MAX_DELTA_WINDOW_SIZE
      \<and> map_of (streamInputs conn) sid = Some c \<and> \<not> chan_closed (frame_chans conn c) \<longrightarrow>
      handleWindowUpdateFrame conn (WindowUpdateFrame v sid delta) =
        Continue (conn\<lparr>frame_chans := (frame_chans conn)
          (c := (frame_chans conn c)\<lparr>sent := sent (frame_chans conn c) @ [WindowUpdateFrame v sid delta]\<rparr>)\<rparr>)"
    by (auto simp: send_input_def chan_send_def not_less word_less_1 dest: leD)
  have bad': "sid AND 1 \<noteq> 0 \<and> \<not> (sid \<noteq> nextClientStreamID conn + 2 \<and> sid \<noteq> 1 \<and> nextClientStreamID conn \<noteq> 0)
      \<and> (delta = 0 \<or> delta > MAX_DELTA_WINDOW_SIZE) \<longrightarrow>
      handleWindowUpdateFrame conn (WindowUpdateFrame v sid delta) = PROTOCOL_ERROR conn sid
      \<and> \<not> is_Continue (handleWindowUpdateFrame conn (WindowUpdateFrame v sid delta))
      \<and> dataOutput (state_of (handleWindowUpdateFrame conn (WindowUpdateFrame v sid delta))) =
          dataOutput conn @ [RstStreamFrame (word_of_int (version conn)) sid RST_STREAM_PROTOCOL_ERROR]
      \<and> (\<forall>r. sent (frame_chans (state_of (handleWindowUpdateFrame conn (WindowUpdateFrame v sid delta))) r)
            = sent (frame_chans conn r))"
  proof (rule impI)
    assume H: "sid AND 1 \<noteq> 0 \<and> \<not> (sid \<noteq> nextClientStreamID conn + 2 \<and> sid \<noteq> 1 \<and> nextClientStreamID conn \<noteq> 0)
      \<and> (delta = 0 \<or> delta > MAX_DELTA_WINDOW_SIZE)"
    with bad have eq: "handleWindowUpdateFrame conn (WindowUpdateFrame v sid delta) = PROTOCOL_ERROR conn sid"
      by (rule mp)
    show "handleWindowUpdateFrame conn (WindowUpdateFrame v sid delta) = PROTOCOL_ERROR conn sid
      \<and> \<not> is_Continue (handleWindowUpdateFrame conn (WindowUpdateFrame v sid delta))
      \<and> dataOutput (state_of (handleWindowUpdateFrame conn (WindowUpdateFrame v sid delta))) =
          dataOutput conn @ [RstStreamFrame (word_of_int (version conn)) sid RST_STREAM_PROTOCOL_ERROR]
      \<and> (\<forall>r. sent (frame_chans (state_of (handleWindowUpdateFrame conn (WindowUpdateFrame v sid delta))) r)
            = sent (frame_chans conn r))"
      unfolding eq
      by (simp add: PROTOCOL_ERROR_stops PROTOCOL_ERROR_dataOutput PROTOCOL_ERROR_sent)
  qed
  from bad' good show ?thesis by (rule conjI)
qed

lemma window_update_handling_example:
  "(3 :: uint32) AND 1 \<noteq> 0
   \<and> \<not> ((3 :: uint32) \<noteq> nextClientStreamID example_conn + 2 \<and> (3 :: uint32) \<noteq> 1
        \<and> nextClientStreamID example_conn \<noteq> 0)
   \<and> MAX_DELTA_WINDOW_SIZE < 0x80000000
   \<and> \<not> is_Continue (handleWindowUpdateFrame example_conn (WindowUpdateFrame 3 3 0))
   \<and> \<not> is_Continue (handleWindowUpdateFrame example_conn (WindowUpdateFrame 3 3 0x80000000))
   \<and> sent (frame_chans (state_of (handleWindowUpdateFrame example_conn (WindowUpdateFrame 3 3 0))) 1) = []
   \<and> 1 \<le> MAX_DELTA_WINDOW_SIZE
   \<and> map_of (streamInputs example_conn) 3 = Some 1
   \<and> \<not> chan_closed (frame_chans example_conn 1)
   \<and> sent (frame_chans (state_of (handleWindowUpdateFrame example_conn
        (WindowUpdateFrame 3 3 MAX_DELTA_WINDOW_SIZE))) 1) = [WindowUpdateFrame 3 3 MAX_DELTA_WINDOW_SIZE]
   \<and> sent (frame_chans (state_of (handleWindowUpdateFrame example_conn (WindowUpdateFrame 3 3 1))) 1)
        = [WindowUpdateFrame 3 3 1]"
proof -
  have a: "(3 :: uint32) AND 1 \<noteq> 0
      \<and> \<not> ((3 :: uint32) \<noteq> nextClientStreamID example_conn + 2 \<and> (3 :: uint32) \<noteq> 1
        \<and> nextClientStreamID example_conn \<noteq> 0)"
    by (simp add: example_conn_def newClientConn_def)
  have big: "MAX_DELTA_WINDOW_SIZE < 0x80000000" and one: "1 \<le> MAX_DELTA_WINDOW_SIZE"
    and refl: "MAX_DELTA_WINDOW_SIZE \<le> MAX_DELTA_WINDOW_SIZE" and one': "(1 :: uint32) \<le> 1"
    by (simp_all add: MAX_DELTA_WINDOW_SIZE_def)
  have b: "map_of (streamInputs example_conn) 3 = Some 1 \<and> \<not> chan_closed (frame_chans example_conn 1)"
    by (simp add: example_conn_def newClientConn_def make_chan_def)
  have e: "sent (frame_chans example_conn 1) = []"
    by (simp add: example_conn_def newClientConn_def make_chan_def)
  note t0 = window_update_handling [of 3 example_conn 0 3 1]
  note t1 = window_update_handling [of 3 example_conn "0x80000000" 3 1]
  note t2 = window_update_handling [of 3 example_conn MAX_DELTA_WINDOW_SIZE 3 1]
  note t3 = window_update_handling [of 3 example_conn 1 3 1]
  from t0 a have r0: "\<not> is_Continue (handleWindowUpdateFrame example_conn (WindowUpdateFrame 3 3 0))
      \<and> sent (frame_chans (state_of (handleWindowUpdateFrame example_conn (WindowUpdateFrame 3 3 0))) 1)
          = sent (frame_chans example_conn 1)"
    by blast
  from t1 a big have r1: "\<not> is_Continue (handleWindowUpdateFrame example_conn (WindowUpdateFrame 3 3 0x80000000))"
    by blast
  from t2 a one refl b have 2: "handleWindowUpdateFrame example_conn (WindowUpdateFrame 3 3 MAX_DELTA_WINDOW_SIZE) =
        Continue (example_conn\<lparr>frame_chans := (frame_chans example_conn)
          (1 := (frame_chans example_conn 1)\<lparr>sent := sent (frame_chans example_conn 1)
             @ [WindowUpdateFrame 3 3 MAX_DELTA_WINDOW_SIZE]\<rparr>)\<rparr>)"
    by blast
  from t3 a one one' b have 3: "handleWindowUpdateFrame example_conn (WindowUpdateFrame 3 3 1) =
        Continue (example_conn\<lparr>frame_chans := (frame_chans example_conn)
          (1 := (frame_chans example_conn 1)\<lparr>sent := sent (frame_chans example_conn 1)
             @ [WindowUpdateFrame 3 3 1]\<rparr>)\<rparr>)"
    by blast
  have r2: "sent (frame_chans (state_of (handleWindowUpdateFrame example_conn
        (WindowUpdateFrame 3 3 MAX_DELTA_WINDOW_SIZE))) 1) = [WindowUpdateFrame 3 3 MAX_DELTA_WINDOW_SIZE]"
    unfolding 2 using e by simp
  have r3: "sent (frame_chans (state_of (handleWindowUpdateFrame example_conn (WindowUpdateFrame 3 3 1))) 1)
        = [WindowUpdateFrame 3 3 1]"
    unfolding 3 using e by simp
  from a big one b r0 r1 r2 r3 e show ?thesis by simp
qed

text \<open>
  Claim C8 says that every WINDOW_UPDATE frame that passes the parity and stream checks
  with a delta between 1 and \<open>MAX_DELTA_WINDOW_SIZE\<close> is routed to the inbox of its
  stream. The test under the comment \<^verbatim>\<open>Check stream is open\<close> compares the stream ID
  with \<^verbatim>\<open>nextClientStreamID + 2\<close> and never looks into a table, so a frame for a
  stream that was never opened passes it. On a new connection, which has no streams,
  the frame for stream 1 with delta 5 passes both checks; it is then sent on the nil channel that
  \<^verbatim>\<open>streamInputs\<close> has for a missing key, where the ingress loop blocks for ever. The
  same happens on the connection with streams 1 and 3 for a frame for stream 5.
\<close>

theorem window_update_without_inbox_blocks:
  "(1 :: uint32) AND 1 \<noteq> 0
   \<and> \<not> ((1 :: uint32) \<noteq> nextClientStreamID ((newClientConn example_params)\<lparr>client := Some example_client, version := 3\<rparr>) + 2
         \<and> (1 :: uint32) \<noteq> 1
         \<and> nextClientStreamID ((newClientConn example_params)\<lparr>client := Some example_client, version := 3\<rparr>) \<noteq> 0)
   \<and> (1 :: uint32) \<le> 5 \<and> (5 :: uint32) \<le> MAX_DELTA_WINDOW_SIZE
   \<and> map_of (streamInputs ((newClientConn example_params)\<lparr>client := Some example_client, version := 3\<rparr>)) 1 = None
   \<and> handleWindowUpdateFrame ((newClientConn example_params)\<lparr>client := Some example_client, version := 3\<rparr>)
        (WindowUpdateFrame 3 1 5) =
      Stopped Blocked ((newClientConn example_params)\<lparr>client := Some example_client, version := 3\<rparr>)
   \<and> readFrames_step example_params ((newClientConn example_params)\<lparr>client := Some example_client, version := 3\<rparr>)
        (Arrived (WindowUpdateFrame 3 1 5)) =
      Stopped Blocked ((newClientConn example_params)\<lparr>client := Some example_client, version := 3\<rparr>)
   \<and> (5 :: uint32) AND 1 \<noteq> 0
   \<and> \<not> ((5 :: uint32) \<noteq> nextClientStreamID example_conn + 2 \<and> (5 :: uint32) \<noteq> 1
         \<and> nextClientStreamID example_conn \<noteq> 0)
   \<and> map_of (streamInputs example_conn) 5 = None
   \<and> readFrames_step example_params example_conn (Arrived (WindowUpdateFrame 3 5 1)) =
      Stopped Blocked example_conn"
  by (simp add: example_params_def example_conn_def newClientConn_def MAX_DELTA_WINDOW_SIZE_def
      send_input_def readFrames_step_def tooManyBenignErrors_def validFrameVersion_def)

text \<open>Seen from \<^verbatim>\<open>readFrames\<close> as a whole: the frames behind the blocked one are never read.\<close>

lemma window_update_blocks_readFrames:
  "readFrames example_params example_conn
     (Arrived (WindowUpdateFrame 3 5 1) # later) = Stopped Blocked example_conn"
  by (simp add: example_params_def example_conn_def newClientConn_def MAX_DELTA_WINDOW_SIZE_def
      send_input_def readFrames_def readFrames_step_def tooManyBenignErrors_def
      validFrameVersion_def)

text \<open>
  Claim C9, as stated: a DATA frame for a stream that is not in \<^verbatim>\<open>streams\<close> is answered
  with an RST_STREAM of status INVALID_STREAM and counts a benign error. On a new
  connection, which has no streams, a DATA frame for stream 2 counts a benign error and
  nothing is sent; a DATA frame for stream 1 is sent on the nil channel of the missing
  inbox, where the loop blocks: nothing is sent and nothing is counted.
\<close>

theorem data_absent_stream_counterexample:
  "map_of (streams (newClientConn example_params)) 2 = None
   \<and> handleDataFrame (newClientConn example_params) (DataFrame 2 0 []) =
       Continue ((newClientConn example_params)\<lparr>numBenignErrors := 1\<rparr>)
   \<and> dataOutput (state_of (handleDataFrame (newClientConn example_params) (DataFrame 2 0 []))) = []
   \<and> map_of (streams (newClientConn example_params)) 1 = None
   \<and> handleDataFrame (newClientConn example_params) (DataFrame 1 0 []) =
       Stopped Blocked (newClientConn example_params)
   \<and> dataOutput (newClientConn example_params) = []
   \<and> numBenignErrors (newClientConn example_params) = 0"
  by (simp add: newClientConn_def benign_def send_input_def)

text \<open>
  Claim C9, amended. A DATA frame whose stream ID is even, or fails the stream check of
  \<^verbatim>\<open>handleDataFrame\<close>, adds one to \<^verbatim>\<open>numBenignErrors\<close> and nothing else changes:
  no RST_STREAM is sent. A DATA frame that passes both checks and whose stream has an
  open inbox in \<^verbatim>\<open>streamInputs\<close> is appended to that inbox; with the FIN flag the
  remote half of its stream in \<^verbatim>\<open>streams\<close> is marked closed as well.
\<close>

theorem data_handling:
  "(sid AND 1 = 0 \<or> (sid \<noteq> nextClientStreamID conn + 2 \<and> sid \<noteq> 1 \<and> nextClientStreamID conn \<noteq> 0) \<longrightarrow>
      handleDataFrame conn (DataFrame sid flags bytes) =
        Continue (conn\<lparr>numBenignErrors := numBenignErrors conn + 1\<rparr>))
   \<and> (sid AND 1 \<noteq> 0 \<and> \<not> (sid \<noteq> nextClientStreamID conn + 2 \<and> sid \<noteq> 1 \<and> nextClientStreamID conn \<noteq> 0)
      \<and> map_of (streamInputs conn) sid = Some c \<and> \<not> chan_closed (frame_chans conn c) \<longrightarrow>
      (flags AND FLAG_FIN = 0 \<longrightarrow>
         handleDataFrame conn (DataFrame sid flags bytes) =
           Continue (conn\<lparr>frame_chans := (frame_chans conn)
             (c := (frame_chans conn c)\<lparr>sent := sent (frame_chans conn c) @ [DataFrame sid flags bytes]\<rparr>)\<rparr>))
      \<and> (flags AND FLAG_FIN \<noteq> 0 \<and> map_of (streams conn) sid = Some s \<longrightarrow>
         handleDataFrame conn (DataFrame sid flags bytes) =
           Continue (conn\<lparr>frame_chans := (frame_chans conn)
             (c := (frame_chans conn c)\<lparr>sent := sent (frame_chans conn c) @ [DataFrame sid flags bytes]\<rparr>),
             stream_objs := (stream_objs conn)
               (s := (stream_objs conn s)\<lparr>state_closed_there := True\<rparr>)\<rparr>)))"
  by (auto simp: benign_def send_input_def chan_send_def handle_fin_def State_CloseThere_def)

theorem data_handling_witness:
  "(2 :: uint32) AND 1 = 0
   \<and> numBenignErrors (state_of (handleDataFrame example_conn (DataFrame 2 0 [7]))) = 1
   \<and> dataOutput (state_of (handleDataFrame example_conn (DataFrame 2 0 [7]))) = []
   \<and> (3 :: uint32) AND 1 \<noteq> 0
   \<and> \<not> ((3 :: uint32) \<noteq> nextClientStreamID example_conn + 2 \<and> (3 :: uint32) \<noteq> 1
        \<and> nextClientStreamID example_conn \<noteq> 0)
   \<and> map_of (streamInputs example_conn) 3 = Some 1
   \<and> \<not> chan_closed (frame_chans example_conn 1)
   \<and> (0 :: 8 word) AND FLAG_FIN = 0
   \<and> sent (frame_chans (state_of (handleDataFrame example_conn (DataFrame 3 0 [7]))) 1) = [DataFrame 3 0 [7]]
   \<and> (1 :: 8 word) AND FLAG_FIN \<noteq> 0
   \<and> map_of (streams example_conn) 3 = Some 1
   \<and> sent (frame_chans (state_of (handleDataFrame example_conn (DataFrame 3 1 [7]))) 1) = [DataFrame 3 1 [7]]
   \<and> state_closed_there (stream_objs (state_of (handleDataFrame example_conn (DataFrame 3 1 [7]))) 1)"
proof -
  have a: "(2 :: uint32) AND 1 = 0" by simp
  have a': "numBenignErrors example_conn = 0 \<and> dataOutput example_conn = []"
    by (simp add: example_conn_def newClientConn_def)
  have b: "(3 :: uint32) AND 1 \<noteq> 0
      \<and> \<not> ((3 :: uint32) \<noteq> nextClientStreamID example_conn + 2 \<and> (3 :: uint32) \<noteq> 1
        \<and> nextClientStreamID example_conn \<noteq> 0)
      \<and> map_of (streamInputs example_conn) 3 = Some 1 \<and> \<not> chan_closed (frame_chans example_conn 1)"
    by (simp add: example_conn_def newClientConn_def make_chan_def)
  have f0: "(0 :: 8 word) AND FLAG_FIN = 0" and f1: "(1 :: 8 word) AND FLAG_FIN \<noteq> 0"
    by (simp_all add: FLAG_FIN_def)
  have s: "map_of (streams example_conn) 3 = Some 1"
    by (simp add: example_conn_def)
  have e: "sent (frame_chans example_conn 1) = []"
    by (simp add: example_conn_def newClientConn_def make_chan_def)
  note t1 = data_handling [of 2 example_conn 0 "[7]" 0 0]
  note t2 = data_handling [of 3 example_conn 0 "[7]" 1 1]
  note t3 = data_handling [of 3 example_conn 1 "[7]" 1 1]
  from t1 a have 1: "handleDataFrame example_conn (DataFrame 2 0 [7]) =
        Continue (example_conn\<lparr>numBenignErrors := numBenignErrors example_conn + 1\<rparr>)"
    by blast
  from t2 b f0 have 2: "handleDataFrame example_conn (DataFrame 3 0 [7]) =
           Continue (example_conn\<lparr>frame_chans := (frame_chans example_conn)
             (1 := (frame_chans example_conn 1)\<lparr>sent := sent (frame_chans example_conn 1) @ [DataFrame 3 0 [7]]\<rparr>)\<rparr>)"
    by blast
  from t3 b f1 s have 3: "handleDataFrame example_conn (DataFrame 3 1 [7]) =
           Continue (example_conn\<lparr>frame_chans := (frame_chans example_conn)
             (1 := (frame_chans example_conn 1)\<lparr>sent := sent (frame_chans example_conn 1) @ [DataFrame 3 1 [7]]\<rparr>),
             stream_objs := (stream_objs example_conn)
               (1 := (stream_objs example_conn 1)\<lparr>state_closed_there := True\<rparr>)\<rparr>)"
    by blast
  have r1: "numBenignErrors (state_of (handleDataFrame example_conn (DataFrame 2 0 [7]))) = 1
      \<and> dataOutput (state_of (handleDataFrame example_conn (DataFrame 2 0 [7]))) = []"
    unfolding 1 using a' by simp
  have r2: "sent (frame_chans (state_of (handleDataFrame example_conn (DataFrame 3 0 [7]))) 1) = [DataFrame 3 0 [7]]"
    unfolding 2 using e by simp
  have r3: "sent (frame_chans (state_of (handleDataFrame example_conn (DataFrame 3 1 [7]))) 1) = [DataFrame 3 1 [7]]
      \<and> state_closed_there (stream_objs (state_of (handleDataFrame example_conn (DataFrame 3 1 [7]))) 1)"
    unfolding 3 using e by simp
  from a b f0 f1 s r1 r2 r3 show ?thesis by blast
qed

subsection \<open>Making a server connection\<close>

text \<open>
  The acceptance check of the server on a connection whose \<^verbatim>\<open>nextClientStreamID\<close>
  is \<open>2^32 - 1\<close>: \<^verbatim>\<open>nextClientStreamID + 2\<close> wraps to 1, and a SYN_STREAM frame opens
  a stream exactly when its stream ID is 1 and its version passes the version check,
  with no special case for the first stream.
\<close>

lemma first_stream_after_wrap:
  assumes "s_nextClientStreamID conn = 0xFFFFFFFF" and "\<not> s_goaway conn"
  shows "s_nextClientStreamID conn + 2 = 1
    \<and> s_handleFrame V conn (SSynStreamFrame fv sid) =
       (if fv \<noteq> s_version conn \<and> fv > V then
          Continue (conn\<lparr>s_written := s_written conn @
            [SRstStreamFrame V sid RST_STREAM_UNSUPPORTED_VERSION]\<rparr>)
        else if sid = 1 then
          Continue (conn\<lparr>s_streams := AList.update 1
            \<lparr>opened_by = SSynStreamFrame fv 1, started = True\<rparr> (s_streams conn)\<rparr>)
        else
          Continue (conn\<lparr>s_written := s_written conn @
            [SRstStreamFrame V sid RST_STREAM_PROTOCOL_ERROR]\<rparr>))"
  using assms
  by (simp add: MAX_STREAM_ID_def s_WriteFrame_def newStream_def run_stream_def)

text \<open>
  Claim C10 says that \<^verbatim>\<open>newConn\<close> sets \<^verbatim>\<open>nextClientStreamID\<close> to \<open>1 - 2\<close>, that
  this is \<open>2^32 - 1\<close> in \<^verbatim>\<open>uint32\<close>, and that a new server connection therefore takes
  stream ID 1 first. \<^verbatim>\<open>newConn\<close> hands out no connection at all. It writes through
  \<^verbatim>\<open>conn.tlsState\<close> while that pointer is nil, which panics before any counter is
  set (\<^verbatim>\<open>newClientConn\<close> allocates the state first); and the constant \<open>1 - 2\<close> is
  the integer \<open>-1\<close>, which is no value of \<^verbatim>\<open>uint32\<close>: Go does not wrap it, the
  compiler rejects the assignment. So neither accept function gets a connection.
\<close>

theorem newConn_gives_no_connection:
  "s_tlsState new_connection = None
   \<and> uint32_of_const (1 - 2) = None
   \<and> newConn = None
   \<and> acceptSPDYVersion2 (Some \<lparr>s_ReadTimeout = 0, s_WriteTimeout = 0\<rparr>) = None
   \<and> acceptSPDYVersion3 (Some \<lparr>s_ReadTimeout = 0, s_WriteTimeout = 0\<rparr>) = None"
  by (simp add: newConn_def new_connection_def uint32_of_const_def acceptSPDYVersion2_def
      acceptSPDYVersion3_def)

end
